theory Spec2Isabelle
  imports Main "HOL-Library.Char_ord"
begin

section \<open>Characters and the string primitives of the host language\<close>

text \<open>
  A string is a list of 8-bit code units. The white space of \<open>\s\<close> and of \<open>trim\<close> is, among
  the code units below 256: TAB, LF, VT, FF, CR, SPACE and NBSP.
\<close>

definition isSpaceChar :: "char \<Rightarrow> bool" where
  "isSpaceChar c = (c = CHR '' '' \<or> c = CHR 0x0A \<or> c = CHR 0x09 \<or> c = CHR 0x0D
                    \<or> c = CHR 0x0B \<or> c = CHR 0x0C \<or> c = CHR 0xA0)"

definition isDigitChar :: "char \<Rightarrow> bool" where
  "isDigitChar c = (CHR ''0'' \<le> c \<and> c \<le> CHR ''9'')"

definition isLowerChar :: "char \<Rightarrow> bool" where
  "isLowerChar c = (CHR ''a'' \<le> c \<and> c \<le> CHR ''z'')"

definition isUpperChar :: "char \<Rightarrow> bool" where
  "isUpperChar c = (CHR ''A'' \<le> c \<and> c \<le> CHR ''Z'')"

definition isWordChar :: "char \<Rightarrow> bool" where
  "isWordChar c = (isLowerChar c \<or> isUpperChar c \<or> isDigitChar c \<or> c = CHR ''_'')"

text \<open>Case folding of the \<open>i\<close> flag and of \<open>toUpperCase\<close>, on the ASCII letters (every
  letter of every pattern and keyword of the source is ASCII).\<close>

definition upperChar :: "char \<Rightarrow> char" where
  "upperChar c = (if isLowerChar c then char_of (of_char c - (32::nat)) else c)"

definition toUpperCase :: "string \<Rightarrow> string" where
  "toUpperCase s = map upperChar s"

definition lowerChar :: "char \<Rightarrow> char" where
  "lowerChar c = (if isUpperChar c then char_of (of_char c + (32::nat)) else c)"

definition toLowerCase :: "string \<Rightarrow> string" where
  "toLowerCase s = map lowerChar s"

definition trimStart :: "string \<Rightarrow> string" where
  "trimStart s = dropWhile isSpaceChar s"

definition trim :: "string \<Rightarrow> string" where
  "trim s = rev (dropWhile isSpaceChar (rev (dropWhile isSpaceChar s)))"

fun startsWith :: "string \<Rightarrow> string \<Rightarrow> bool" where
  "startsWith s [] = True"
| "startsWith [] (p # ps) = False"
| "startsWith (c # cs) (p # ps) = (c = p \<and> startsWith cs ps)"

definition endsWith :: "string \<Rightarrow> string \<Rightarrow> bool" where
  "endsWith s p = startsWith (rev s) (rev p)"

fun includesStr :: "string \<Rightarrow> string \<Rightarrow> bool" where
  "includesStr [] p = (p = [])"
| "includesStr (c # cs) p = (startsWith (c # cs) p \<or> includesStr cs p)"

text \<open>\<open>s.split(';;')\<close>: the pieces between the occurrences of the separator, left to right.\<close>

fun splitSemis :: "string \<Rightarrow> string \<Rightarrow> string list" where
  "splitSemis acc [] = [rev acc]"
| "splitSemis acc [c] = [rev (c # acc)]"
| "splitSemis acc (c # d # cs) =
     (if c = CHR '';'' \<and> d = CHR '';'' then rev acc # splitSemis [] cs
      else splitSemis (c # acc) (d # cs))"

text \<open>\<open>xs.join(sep)\<close>.\<close>

fun joinWith :: "string \<Rightarrow> string list \<Rightarrow> string" where
  "joinWith sep [] = []"
| "joinWith sep [x] = x"
| "joinWith sep (x # y # ys) = x @ sep @ joinWith sep (y # ys)"

text \<open>\<open>s.repeat(n)\<close>.\<close>

definition repeat :: "string \<Rightarrow> nat \<Rightarrow> string" where
  "repeat s n = concat (replicate n s)"

section \<open>Regular expressions: a backtracking matcher\<close>

text \<open>
  Every pattern of the source is written as a term of \<open>re\<close>, constructor for construct
  (the atoms of a class are a character, a range, \<open>\s\<close>, \<open>\S\<close>, \<open>\d\<close> and \<open>\w\<close>):
  \<open>Lit\<close> a character, \<open>Str\<close> a literal text, \<open>Set\<close> and \<open>NSet\<close> a class \<open>[...]\<close> and \<open>[^...]\<close>,
  \<open>Seq\<close> concatenation, \<open>Alt\<close> the bar, \<open>Opt\<close>, \<open>Star\<close> and \<open>Plus\<close> the greedy \<open>?\<close>, \<open>*\<close> and \<open>+\<close>,
  \<open>Lazy\<close> the lazy \<open>*?\<close>, \<open>Grp\<close> a capture group, \<open>Look\<close> the lookahead \<open>(?=...)\<close>, \<open>Bol\<close> and
  \<open>Eol\<close> the anchors (no pattern has the \<open>m\<close> flag), \<open>Wb\<close> the word boundary \<open>\b\<close>.

  The matcher is written with continuations and tries the alternatives in the order a
  backtracking engine does, so the first success is the engine's match. A state holds
  the groups closed so far, the text consumed in the open group (reversed), the
  character before the position, the remaining input, and whether a character has been
  consumed since the current iteration of a star began (an iteration that consumes
  nothing is rejected, as the language standard has it).
\<close>

datatype atom = Ch char | Rng char char | Ws | NotWs | Dg | Wd

fun atomHas :: "atom \<Rightarrow> char \<Rightarrow> bool" where
  "atomHas (Ch a) c = (a = c)"
| "atomHas (Rng a b) c = (a \<le> c \<and> c \<le> b)"
| "atomHas Ws c = isSpaceChar c"
| "atomHas NotWs c = (\<not> isSpaceChar c)"
| "atomHas Dg c = isDigitChar c"
| "atomHas Wd c = isWordChar c"

definition inClass :: "atom list \<Rightarrow> char \<Rightarrow> bool" where
  "inClass as c = list_ex (\<lambda>a. atomHas a c) as"

datatype re =
    Lit char | Str string | Set "atom list" | NSet "atom list"
  | Seq re re | Alt re re | Opt re | Star re | Lazy re | Plus re
  | Grp re | Look re | Bol | Eol | Wb

datatype mstate =
  MState (caps: "string list") (cur: string) (prev: "char option") (rest: string) (moved: bool)

type_synonym cont = "mstate \<Rightarrow> mstate option"

definition litOk :: "bool \<Rightarrow> char \<Rightarrow> char \<Rightarrow> bool" where
  "litOk ci a c = (if ci then upperChar a = upperChar c else a = c)"

fun step :: "(char \<Rightarrow> bool) \<Rightarrow> mstate \<Rightarrow> cont \<Rightarrow> mstate option" where
  "step P (MState cs cu p [] mv) k = None"
| "step P (MState cs cu p (c # s) mv) k =
     (if P c then k (MState cs (c # cu) (Some c) s True) else None)"

fun startIter :: "mstate \<Rightarrow> mstate" where
  "startIter (MState cs cu p s mv) = MState cs cu p s False"

fun openGrp :: "mstate \<Rightarrow> mstate" where
  "openGrp (MState cs cu p s mv) = MState cs [] p s mv"

fun closeGrp :: "mstate \<Rightarrow> mstate \<Rightarrow> mstate" where
  "closeGrp (MState cs0 cu0 p0 s0 mv0) (MState cs cu p s mv) =
     MState (cs @ [rev cu]) (cu @ cu0) p s mv"

primrec strm :: "bool \<Rightarrow> string \<Rightarrow> mstate \<Rightarrow> cont \<Rightarrow> mstate option" where
  "strm ci [] st k = k st"
| "strm ci (a # as) st k = step (litOk ci a) st (\<lambda>st1. strm ci as st1 k)"

text \<open>The stars recurse on a copy of the remaining input: every iteration consumes a
  character, so the copy is never used up before the input is.\<close>

primrec starGreedy ::
  "(mstate \<Rightarrow> cont \<Rightarrow> mstate option) \<Rightarrow> string \<Rightarrow> mstate \<Rightarrow> cont \<Rightarrow> mstate option" where
  "starGreedy f [] st k = k st"
| "starGreedy f (x # fuel) st k =
     (case f (startIter st) (\<lambda>st1. if moved st1 then starGreedy f fuel st1 k else None) of
        Some r \<Rightarrow> Some r
      | None \<Rightarrow> k st)"

primrec starLazy ::
  "(mstate \<Rightarrow> cont \<Rightarrow> mstate option) \<Rightarrow> string \<Rightarrow> mstate \<Rightarrow> cont \<Rightarrow> mstate option" where
  "starLazy f [] st k = k st"
| "starLazy f (x # fuel) st k =
     (case k st of
        Some r \<Rightarrow> Some r
      | None \<Rightarrow> f (startIter st) (\<lambda>st1. if moved st1 then starLazy f fuel st1 k else None))"

definition wordBoundary :: "mstate \<Rightarrow> bool" where
  "wordBoundary st =
     ((case prev st of None \<Rightarrow> False | Some c \<Rightarrow> isWordChar c)
      \<noteq> (case rest st of [] \<Rightarrow> False | c # _ \<Rightarrow> isWordChar c))"

primrec m :: "bool \<Rightarrow> re \<Rightarrow> mstate \<Rightarrow> cont \<Rightarrow> mstate option" where
  "m ci (Lit a) st k = step (litOk ci a) st k"
| "m ci (Str as) st k = strm ci as st k"
| "m ci (Set as) st k = step (inClass as) st k"
| "m ci (NSet as) st k = step (\<lambda>c. \<not> inClass as c) st k"
| "m ci (Seq a b) st k = m ci a st (\<lambda>st1. m ci b st1 k)"
| "m ci (Alt a b) st k = (case m ci a st k of Some r \<Rightarrow> Some r | None \<Rightarrow> m ci b st k)"
| "m ci (Opt a) st k = (case m ci a st k of Some r \<Rightarrow> Some r | None \<Rightarrow> k st)"
| "m ci (Star a) st k = starGreedy (m ci a) (rest st) st k"
| "m ci (Lazy a) st k = starLazy (m ci a) (rest st) st k"
| "m ci (Plus a) st k = m ci a st (\<lambda>st1. starGreedy (m ci a) (rest st1) st1 k)"
| "m ci (Grp a) st k = m ci a (openGrp st) (\<lambda>st1. k (closeGrp st st1))"
| "m ci (Look a) st k = (case m ci a st Some of Some _ \<Rightarrow> k st | None \<Rightarrow> None)"
| "m ci Bol st k = (if prev st = None then k st else None)"
| "m ci Eol st k = (if rest st = [] then k st else None)"
| "m ci Wb st k = (if wordBoundary st then k st else None)"

text \<open>\<open>exec\<close> tries the pattern at one position (\<open>p\<close> is the character before it);
  \<open>search\<close> tries the positions left to right and returns the text skipped and the state
  after the first match.\<close>

definition exec :: "bool \<Rightarrow> re \<Rightarrow> char option \<Rightarrow> string \<Rightarrow> mstate option" where
  "exec ci r p s = m ci r (MState [] [] p s False) Some"

fun search ::
  "bool \<Rightarrow> re \<Rightarrow> char option \<Rightarrow> string \<Rightarrow> string \<Rightarrow> (string \<times> mstate) option" where
  "search ci r p sk [] =
     (case exec ci r p [] of Some st \<Rightarrow> Some (rev sk, st) | None \<Rightarrow> None)"
| "search ci r p sk (c # cs) =
     (case exec ci r p (c # cs) of
        Some st \<Rightarrow> Some (rev sk, st)
      | None \<Rightarrow> search ci r (Some c) (c # sk) cs)"

text \<open>The match array: the matched text (index 0), and the groups (index 1 onwards).\<close>

type_synonym match = "string \<times> string list"

definition groups :: "mstate \<Rightarrow> match" where
  "groups st = (rev (cur st), caps st)"

text \<open>\<open>re.test(s)\<close>, and \<open>s.match(re)\<close> read as a truth value.\<close>

definition jsTest :: "bool \<Rightarrow> re \<Rightarrow> string \<Rightarrow> bool" where
  "jsTest ci r s = (search ci r None [] s \<noteq> None)"

text \<open>\<open>s.match(re)\<close> without the \<open>g\<close> flag.\<close>

definition jsMatch :: "bool \<Rightarrow> re \<Rightarrow> string \<Rightarrow> match option" where
  "jsMatch ci r s = (case search ci r None [] s of None \<Rightarrow> None | Some (sk, st) \<Rightarrow> Some (groups st))"

text \<open>\<open>s.replace(re, ...)\<close> without the \<open>g\<close> flag: the first match only.\<close>

definition jsReplace :: "bool \<Rightarrow> re \<Rightarrow> (match \<Rightarrow> string) \<Rightarrow> string \<Rightarrow> string" where
  "jsReplace ci r f s =
     (case search ci r None [] s of
        None \<Rightarrow> s
      | Some (sk, st) \<Rightarrow> sk @ f (groups st) @ rest st)"

text \<open>
  \<open>s.replace(re, ...)\<close> with the \<open>g\<close> flag: every match, left to right, each search starting
  where the last match ended (one character further after an empty match). The first
  argument is a copy of the input bounding the number of rounds.
\<close>

primrec replaceLoop ::
  "string \<Rightarrow> bool \<Rightarrow> re \<Rightarrow> (match \<Rightarrow> string) \<Rightarrow> char option \<Rightarrow> string \<Rightarrow> string" where
  "replaceLoop [] ci r f p s =
     (case search ci r p [] s of
        None \<Rightarrow> s
      | Some (sk, st) \<Rightarrow> sk @ f (groups st) @ rest st)"
| "replaceLoop (x # fuel) ci r f p s =
     (case search ci r p [] s of
        None \<Rightarrow> s
      | Some (sk, st) \<Rightarrow>
          (if cur st = [] then
             (case rest st of
                [] \<Rightarrow> sk @ f (groups st)
              | c # cs \<Rightarrow> sk @ f (groups st) @ c # replaceLoop fuel ci r f (Some c) cs)
           else sk @ f (groups st) @ replaceLoop fuel ci r f (prev st) (rest st)))"

definition jsReplaceAll :: "bool \<Rightarrow> re \<Rightarrow> (match \<Rightarrow> string) \<Rightarrow> string \<Rightarrow> string" where
  "jsReplaceAll ci r f s = replaceLoop s ci r f None s"

text \<open>
  The loop \<open>while ((match = re.exec(s)) !== null)\<close> of a pattern with the \<open>g\<close> flag: the
  match arrays, left to right. Every pattern the source runs this loop on holds a
  literal character outside every star, so no match is empty; the loop is cut at an
  empty match.
\<close>

primrec execLoop ::
  "string \<Rightarrow> bool \<Rightarrow> re \<Rightarrow> char option \<Rightarrow> string \<Rightarrow> match list" where
  "execLoop [] ci r p s = []"
| "execLoop (x # fuel) ci r p s =
     (case search ci r p [] s of
        None \<Rightarrow> []
      | Some (sk, st) \<Rightarrow>
          (if cur st = [] then [] else groups st # execLoop fuel ci r (prev st) (rest st)))"

definition execAll :: "bool \<Rightarrow> re \<Rightarrow> string \<Rightarrow> match list" where
  "execAll ci r s = execLoop s ci r None s"

text \<open>\<open>s.split(re)\<close> for a pattern that matches no empty text.\<close>

primrec splitLoop :: "string \<Rightarrow> re \<Rightarrow> char option \<Rightarrow> string \<Rightarrow> string list" where
  "splitLoop [] r p s = [s]"
| "splitLoop (x # fuel) r p s =
     (case search False r p [] s of
        None \<Rightarrow> [s]
      | Some (sk, st) \<Rightarrow>
          (if cur st = [] then [s] else sk # splitLoop fuel r (prev st) (rest st)))"

definition jsSplit :: "re \<Rightarrow> string \<Rightarrow> string list" where
  "jsSplit r s = splitLoop s r None s"

text \<open>Classes and pieces that many patterns share.\<close>

definition alnum :: "atom list" where
  "alnum = [Rng CHR ''a'' CHR ''z'', Rng CHR ''A'' CHR ''Z'', Rng CHR ''0'' CHR ''9'']"

definition ident :: re where
  "ident = Plus (Set (alnum @ [Ch CHR ''_'']))"

definition ws0 :: re where "ws0 = Star (Set [Ws])"
definition ws1 :: re where "ws1 = Plus (Set [Ws])"
definition anyLazy :: re where "anyLazy = Lazy (Set [Ws, NotWs])"

fun seqs :: "re list \<Rightarrow> re" where
  "seqs [] = Str []"
| "seqs [r] = r"
| "seqs (r # rs) = Seq r (seqs rs)"

fun alts :: "re list \<Rightarrow> re" where
  "alts [] = Str []"
| "alts [r] = r"
| "alts (r # rs) = Alt r (alts rs)"

section \<open>The linter: the parsed tree and the rules\<close>

text \<open>
  The interfaces of the parsed tree. An optional property is an \<open>option\<close>; a
  \<open>Record<string, T>\<close> is an association list in the order \<open>for ... in\<close> and
  \<open>Object.entries\<close> enumerate it, its keys distinct.
\<close>

record LookMLField =
  field_name :: "string option"
  field_type :: "string option"
  field_sql :: "string option"
  field_primary_key :: "bool option"
  field_html :: "string option"
  field_label :: "string option"
  field_description :: "string option"

record DerivedTable =
  derived_sql :: "string option"

record LookMLView =
  view_name :: "string option"
  sql_table_name :: "string option"
  derived_table :: "DerivedTable option"
  dimensions :: "(string \<times> LookMLField) list option"
  dimension_groups :: "(string \<times> LookMLField) list option"
  measures :: "(string \<times> LookMLField) list option"
  filters :: "(string \<times> LookMLField) list option"

record LookMLJoin =
  join_name :: "string option"
  sql_on :: "string option"
  relationship :: "string option"
  view_label :: "string option"

record LookMLExplore =
  explore_name :: "string option"
  explore_view_name :: "string option"
  joins :: "(string \<times> LookMLJoin) list option"

record LookMLModel =
  model_name :: "string option"
  connection :: "string option"
  model_includes :: "string list option"

record ParsedLookML =
  views :: "(string \<times> LookMLView) list option"
  explores :: "(string \<times> LookMLExplore) list option"
  models :: "(string \<times> LookMLModel) list option"

record RuleViolation =
  ruleId :: string
  message :: string
  severity :: string
  path :: "string list"

text \<open>The truth value of an optional string: absent and empty are both false.\<close>

fun truthy :: "string option \<Rightarrow> bool" where
  "truthy None = False"
| "truthy (Some s) = (s \<noteq> [])"

text \<open>\<open>x || {}\<close> for an optional record of fields.\<close>

fun orEmpty :: "'a list option \<Rightarrow> 'a list" where
  "orEmpty None = []"
| "orEmpty (Some xs) = xs"

subsection \<open>Rule K1\<close>

text \<open>\<open>/^pk\d*$/i\<close>\<close>

definition pkPattern :: re where
  "pkPattern = seqs [Bol, Str ''pk'', Star (Set [Dg]), Eol]"

definition hasTable :: "LookMLView \<Rightarrow> bool" where
  "hasTable view = (\<not> (derived_table view = None \<and> \<not> truthy (sql_table_name view)))"

definition pkDimensions :: "LookMLView \<Rightarrow> (string \<times> LookMLField) list" where
  "pkDimensions view = filter (\<lambda>(n, dim). field_primary_key dim = Some True) (orEmpty (dimensions view))"

definition missingPkViolation :: "string \<Rightarrow> RuleViolation" where
  \<open>missingPkViolation viewName =
     \<lparr> ruleId = ''k1'',
       message = ''View "'' @ viewName @ ''" is missing a primary key dimension'',
       severity = ''warning'',
       path = [''views'', viewName] \<rparr>\<close>

definition pkNamingViolation :: "string \<Rightarrow> string \<Rightarrow> RuleViolation" where
  \<open>pkNamingViolation viewName dimName =
     \<lparr> ruleId = ''k1'',
       message = ''Primary key dimension "'' @ dimName @ ''" in view "'' @ viewName
                 @ ''" should follow naming convention (pk)'',
       severity = ''warning'',
       path = [''views'', viewName, ''dimensions'', dimName] \<rparr>\<close>

text \<open>The body of the loop over the views.\<close>

definition checkPrimaryKeysView :: "string \<times> LookMLView \<Rightarrow> RuleViolation list" where
  "checkPrimaryKeysView nv =
     (case nv of (viewName, view) \<Rightarrow>
        if \<not> hasTable view then []
        else if pkDimensions view = [] then [missingPkViolation viewName]
        else map (\<lambda>(dimName, dim). pkNamingViolation viewName dimName)
               (filter (\<lambda>(dimName, dim). \<not> jsTest True pkPattern dimName) (pkDimensions view)))"

definition checkPrimaryKeys :: "ParsedLookML \<Rightarrow> RuleViolation list" where
  "checkPrimaryKeys lookml =
     (case views lookml of
        None \<Rightarrow> []
      | Some vs \<Rightarrow> concat (map checkPrimaryKeysView vs))"

subsection \<open>Rule E1\<close>

text \<open>\<open>/\${[^}]+}/g\<close>, \<open>/\{\{[^}]+\}\}/g\<close>, \<open>/\{%[^%]+%\}/g\<close> and
  \<open>/[a-zA-Z0-9._]+\.[a-zA-Z0-9 ._]+/g\<close>\<close>

definition dollarRefPattern :: re where
  "dollarRefPattern = seqs [Str ''${'', Plus (NSet [Ch CHR ''}'']), Lit CHR ''}'']"

definition liquidOutputPattern :: re where
  "liquidOutputPattern = seqs [Str ''{{'', Plus (NSet [Ch CHR ''}'']), Str ''}}'']"

definition liquidTagPattern :: re where
  "liquidTagPattern = seqs [Str ''{%'', Plus (NSet [Ch CHR ''%'']), Str ''%}'']"

definition directTablePattern :: re where
  "directTablePattern =
     seqs [Plus (Set (alnum @ [Ch CHR ''.'', Ch CHR ''_''])),
           Lit CHR ''.'',
           Plus (Set (alnum @ [Ch CHR '' '', Ch CHR ''.'', Ch CHR ''_'']))]"

definition cleanSql :: "string \<Rightarrow> string" where
  "cleanSql s =
     jsReplaceAll False liquidTagPattern (\<lambda>g. [])
       (jsReplaceAll False liquidOutputPattern (\<lambda>g. [])
          (jsReplaceAll False dollarRefPattern (\<lambda>g. []) s))"

definition directReferences :: "string \<Rightarrow> string list" where
  "directReferences sqlOn =
     filter (\<lambda>reference. \<not> startsWith reference ''safe.'')
       (map fst (execAll False directTablePattern (cleanSql sqlOn)))"

definition joinViolation :: "string \<Rightarrow> string \<Rightarrow> string \<Rightarrow> RuleViolation" where
  \<open>joinViolation exploreName joinName reference =
     \<lparr> ruleId = ''e1'',
       message = ''Join "'' @ joinName @ ''" in explore "'' @ exploreName
                 @ ''" uses direct table reference "'' @ reference
                 @ ''" - use ${} substitution instead'',
       severity = ''warning'',
       path = [''explores'', exploreName, ''joins'', joinName, ''sql_on''] \<rparr>\<close>

definition checkJoin :: "string \<Rightarrow> string \<times> LookMLJoin \<Rightarrow> RuleViolation list" where
  "checkJoin exploreName nj =
     (case nj of (joinName, join) \<Rightarrow>
        (case sql_on join of
           None \<Rightarrow> []
         | Some sqlOn \<Rightarrow>
             if sqlOn = [] then []
             else map (joinViolation exploreName joinName) (directReferences sqlOn)))"

definition checkJoinReferencesExplore :: "string \<times> LookMLExplore \<Rightarrow> RuleViolation list" where
  "checkJoinReferencesExplore ne =
     (case ne of (exploreName, explore) \<Rightarrow>
        (case joins explore of
           None \<Rightarrow> []
         | Some js \<Rightarrow> concat (map (checkJoin exploreName) js)))"

definition checkJoinReferences :: "ParsedLookML \<Rightarrow> RuleViolation list" where
  "checkJoinReferences lookml =
     (case explores lookml of
        None \<Rightarrow> []
      | Some es \<Rightarrow> concat (map checkJoinReferencesExplore es))"

subsection \<open>Rule F1\<close>

text \<open>\<open>/\${([a-zA-Z0-9_]+)\.([a-zA-Z0-9_]+)}/g\<close>\<close>

definition crossRefPattern :: re where
  "crossRefPattern = seqs [Str ''${'', Grp ident, Lit CHR ''.'', Grp ident, Lit CHR ''}'']"

text \<open>The body of the loop over the matches; the pattern has two groups.\<close>

fun crossRef :: "string \<Rightarrow> match \<Rightarrow> string list" where
  "crossRef currentViewName (whole, [refViewName, refFieldName]) =
     (if refViewName = currentViewName then []
      else if refViewName = ''TABLE'' then []
      else [refViewName @ ''.'' @ refFieldName])"
| "crossRef currentViewName (whole, gs) = []"

definition extractCrossViewReferences :: "string \<Rightarrow> string \<Rightarrow> string list" where
  "extractCrossViewReferences txt currentViewName =
     concat (map (crossRef currentViewName) (execAll False crossRefPattern txt))"

definition sqlRefViolation :: "string \<Rightarrow> string \<Rightarrow> string \<Rightarrow> string \<Rightarrow> RuleViolation" where
  \<open>sqlRefViolation fieldType fieldName viewName ref =
     \<lparr> ruleId = ''f1'',
       message = fieldType @ '' "'' @ fieldName @ ''" in view "'' @ viewName
                 @ ''" references another view via "'' @ ref @ ''"'',
       severity = ''warning'',
       path = [''views'', viewName, fieldType @ ''s'', fieldName, ''sql''] \<rparr>\<close>

definition htmlRefViolation :: "string \<Rightarrow> string \<Rightarrow> string \<Rightarrow> string \<Rightarrow> RuleViolation" where
  \<open>htmlRefViolation fieldType fieldName viewName ref =
     \<lparr> ruleId = ''f1'',
       message = fieldType @ '' "'' @ fieldName @ ''" in view "'' @ viewName
                 @ ''" references another view in HTML via "'' @ ref @ ''"'',
       severity = ''warning'',
       path = [''views'', viewName, fieldType @ ''s'', fieldName, ''html''] \<rparr>\<close>

definition checkField :: "string \<Rightarrow> string \<Rightarrow> string \<times> LookMLField \<Rightarrow> RuleViolation list" where
  "checkField viewName fieldType nf =
     (case nf of (fieldName, field) \<Rightarrow>
        (case field_sql field of
           None \<Rightarrow> []
         | Some s \<Rightarrow>
             if s = [] then []
             else map (sqlRefViolation fieldType fieldName viewName)
                    (extractCrossViewReferences s viewName))
        @ (case field_html field of
             None \<Rightarrow> []
           | Some h \<Rightarrow>
               if h = [] then []
               else map (htmlRefViolation fieldType fieldName viewName)
                      (extractCrossViewReferences h viewName)))"

definition checkFieldsForCrossReferences ::
  "(string \<times> LookMLField) list \<Rightarrow> string \<Rightarrow> string \<Rightarrow> RuleViolation list" where
  "checkFieldsForCrossReferences fs viewName fieldType =
     concat (map (checkField viewName fieldType) fs)"

definition checkCrossViewReferencesView :: "string \<times> LookMLView \<Rightarrow> RuleViolation list" where
  "checkCrossViewReferencesView nv =
     (case nv of (viewName, view) \<Rightarrow>
        if \<not> hasTable view then []
        else checkFieldsForCrossReferences (orEmpty (dimensions view)) viewName ''dimension''
           @ checkFieldsForCrossReferences (orEmpty (dimension_groups view)) viewName ''dimension_group''
           @ checkFieldsForCrossReferences (orEmpty (measures view)) viewName ''measure''
           @ checkFieldsForCrossReferences (orEmpty (filters view)) viewName ''filter'')"

definition checkCrossViewReferences :: "ParsedLookML \<Rightarrow> RuleViolation list" where
  "checkCrossViewReferences lookml =
     (case views lookml of
        None \<Rightarrow> []
      | Some vs \<Rightarrow> concat (map checkCrossViewReferencesView vs))"

subsection \<open>The rule table and the engine\<close>

datatype jsError = TypeError

record LookMLRule =
  rule_id :: string
  rule_description :: string
  rule_check :: "ParsedLookML \<Rightarrow> jsError + RuleViolation list"

definition ALL_RULES :: "(string \<times> LookMLRule) list" where
  "ALL_RULES =
     [(''k1'', \<lparr> rule_id = ''k1'',
                rule_description = ''Primary keys should be explicitly defined and follow naming conventions'',
                rule_check = (\<lambda>lookml. Inr (checkPrimaryKeys lookml)) \<rparr>),
      (''e1'', \<lparr> rule_id = ''e1'',
                rule_description = ''Explore joins should use substitution operators instead of direct table references'',
                rule_check = (\<lambda>lookml. Inr (checkJoinReferences lookml)) \<rparr>),
      (''f1'', \<lparr> rule_id = ''f1'',
                rule_description = ''Fields should not reference other views directly'',
                rule_check = (\<lambda>lookml. Inr (checkCrossViewReferences lookml)) \<rparr>)]"

text \<open>
  \<open>table[id]\<close> on an object literal: an own property, or a property every object inherits
  (a function or an object, so true as a condition, and without a \<open>check\<close> method), or
  \<open>undefined\<close>.
\<close>

datatype 'a property = Own 'a | Inherited | Undefined

definition inheritedKeys :: "string list" where
  "inheritedKeys =
     [''constructor'', ''hasOwnProperty'', ''isPrototypeOf'', ''propertyIsEnumerable'',
      ''toLocaleString'', ''toString'', ''valueOf'', ''__proto__'', ''__defineGetter__'',
      ''__defineSetter__'', ''__lookupGetter__'', ''__lookupSetter__'']"

definition getProperty :: "(string \<times> 'a) list \<Rightarrow> string \<Rightarrow> 'a property" where
  "getProperty table key =
     (case map_of table key of
        Some v \<Rightarrow> Own v
      | None \<Rightarrow> if key \<in> set inheritedKeys then Inherited else Undefined)"

text \<open>The truth value of a looked-up property: only \<open>undefined\<close> is false.\<close>

fun isTruthy :: "'a property \<Rightarrow> bool" where
  "isTruthy (Own v) = True"
| "isTruthy Inherited = True"
| "isTruthy Undefined = False"

text \<open>One round of the loop \<open>for (const rule of rulesToApply)\<close>: the \<open>try\<close> block with its
  \<open>catch\<close>, which logs and goes on. Calling \<open>check\<close> on an inherited property is a
  \<open>TypeError\<close>.\<close>

definition callCheck :: "LookMLRule property \<Rightarrow> ParsedLookML \<Rightarrow> jsError + RuleViolation list" where
  "callCheck rule lookml =
     (case rule of Own r \<Rightarrow> rule_check r lookml | Inherited \<Rightarrow> Inl TypeError | Undefined \<Rightarrow> Inl TypeError)"

definition runRule :: "LookMLRule property \<Rightarrow> ParsedLookML \<Rightarrow> RuleViolation list" where
  "runRule rule lookml =
     (case callCheck rule lookml of Inr ruleViolations \<Rightarrow> ruleViolations | Inl error \<Rightarrow> [])"

text \<open>\<open>applyRules\<close>, with the table of rules as a parameter; the source's table is
  \<open>ALL_RULES\<close>.\<close>

definition applyRulesIn ::
  "(string \<times> LookMLRule) list \<Rightarrow> ParsedLookML \<Rightarrow> string list \<Rightarrow> RuleViolation list" where
  "applyRulesIn table lookml enabledRuleIds =
     (let rulesToApply =
            map (getProperty table)
              (filter (\<lambda>id. isTruthy (getProperty table id)) enabledRuleIds)
      in concat (map (\<lambda>rule. runRule rule lookml) rulesToApply))"

definition applyRules :: "ParsedLookML \<Rightarrow> string list \<Rightarrow> RuleViolation list" where
  "applyRules lookml enabledRuleIds = applyRulesIn ALL_RULES lookml enabledRuleIds"

text \<open>\<open>getLookMLDiagnostics\<close>: the rules left after the disabled ones are filtered out.\<close>

definition activeRules :: "string list \<Rightarrow> string list \<Rightarrow> string list" where
  "activeRules enabledRules disabledRules =
     filter (\<lambda>rule. rule \<notin> set disabledRules) enabledRules"

section \<open>The fallback parser\<close>

text \<open>
  The patterns of the parser. A block pattern is
  \<open>kw:\s+([a-zA-Z0-9_]+)\s*\{([\s\S]*?)(?=...)\<close>; \<open>topStop\<close> is the lookahead of the three
  top-level patterns, \<open>\n\s*view:|\n\s*explore:|\n\s*model:|\s*$\<close>.
\<close>

definition nl :: char where "nl = CHR 0x0A"

definition blockPattern :: "string \<Rightarrow> re \<Rightarrow> re" where
  "blockPattern kw stop =
     seqs [Str (kw @ '':''), ws1, Grp ident, ws0, Lit CHR ''{'', Grp anyLazy, Look stop]"

definition lineStart :: "string \<Rightarrow> re" where
  "lineStart kw = seqs [Lit nl, ws0, Str kw]"

definition topStop :: re where
  "topStop = alts [lineStart ''view:'', lineStart ''explore:'', lineStart ''model:'', Seq ws0 Eol]"

definition viewRegex :: re where "viewRegex = blockPattern ''view'' topStop"
definition exploreRegex :: re where "exploreRegex = blockPattern ''explore'' topStop"
definition modelRegex :: re where "modelRegex = blockPattern ''model'' topStop"

text \<open>\<open>/join:\s+([a-zA-Z0-9_]+)\s*\{([\s\S]*?)(?=\n\s*join:|\n\s*\})/g\<close>\<close>

definition joinRegex :: re where
  "joinRegex = blockPattern ''join'' (alts [lineStart ''join:'', lineStart ''}''])"

text \<open>The pattern \<open>extractFields\<close> builds from the field type.\<close>

definition fieldRegex :: "string \<Rightarrow> re" where
  "fieldRegex fieldType =
     blockPattern fieldType
       (alts [lineStart (fieldType @ '':''), lineStart ''dimension:'', lineStart ''dimension_group:'',
              lineStart ''measure:'', lineStart ''filter:'', lineStart ''}''])"

text \<open>\<open>kw:\s*([^\n]+)\<close>\<close>

definition restOfLinePattern :: "string \<Rightarrow> re" where
  "restOfLinePattern kw = seqs [Str (kw @ '':''), ws0, Grp (Plus (NSet [Ch nl]))]"

text \<open>\<open>kw:\s*"([^"]+)"\<close>\<close>

definition quotedPattern :: "string \<Rightarrow> re" where
  "quotedPattern kw =
     seqs [Str (kw @ '':''), ws0, Lit CHR 0x22, Grp (Plus (NSet [Ch CHR 0x22])), Lit CHR 0x22]"

text \<open>\<open>kw:\s*([\s\S]*?)(?=\n\s*[a-zA-Z_]+:|$)\<close>\<close>

definition untilNextPropertyPattern :: "string \<Rightarrow> re" where
  "untilNextPropertyPattern kw =
     seqs [Str (kw @ '':''), ws0, Grp anyLazy,
           Look (Alt (seqs [Lit nl, ws0,
                            Plus (Set [Rng CHR ''a'' CHR ''z'', Rng CHR ''A'' CHR ''Z'', Ch CHR ''_'']),
                            Lit CHR '':''])
                     Eol)]"

text \<open>\<open>/derived_table:\s*\{([\s\S]*?)(?=\n\s*\})/\<close> and
  \<open>/sql:\s*([\s\S]*?)(?=\n\s*;;\s*|$)/\<close>\<close>

definition derivedTablePattern :: re where
  "derivedTablePattern =
     seqs [Str ''derived_table:'', ws0, Lit CHR ''{'', Grp anyLazy, Look (lineStart ''}'')]"

definition derivedSqlPattern :: re where
  "derivedSqlPattern =
     seqs [Str ''sql:'', ws0, Grp anyLazy, Look (Alt (seqs [Lit nl, ws0, Str '';;'', ws0]) Eol)]"

text \<open>\<open>/primary_key:\s*(yes|true|no|false)/i\<close>\<close>

definition primaryKeyPattern :: re where
  "primaryKeyPattern =
     seqs [Str ''primary_key:'', ws0, Grp (alts [Str ''yes'', Str ''true'', Str ''no'', Str ''false''])]"

text \<open>The first and the second group of a match; every pattern they are read from has
  the group.\<close>

fun group1 :: "match \<Rightarrow> string" where
  "group1 (whole, g # gs) = g"
| "group1 (whole, []) = []"

fun group2 :: "match \<Rightarrow> string" where
  "group2 (whole, g # h # gs) = h"
| "group2 (whole, gs) = []"

text \<open>\<open>m ? m[1].trim() : undefined\<close>\<close>

definition trimmedGroup :: "re \<Rightarrow> string \<Rightarrow> string option" where
  "trimmedGroup r s = map_option (\<lambda>g. trim (group1 g)) (jsMatch False r s)"

definition plainGroup :: "re \<Rightarrow> string \<Rightarrow> string option" where
  "plainGroup r s = map_option group1 (jsMatch False r s)"

text \<open>\<open>obj[key] = value\<close> on a record kept in insertion order: an existing key keeps its
  place. (The names here are ordinary keys; a name that is a canonical array index
  would be enumerated before the others, and the name \<open>__proto__\<close> would set the
  prototype of the record and add no key.)\<close>

fun assign :: "(string \<times> 'a) list \<Rightarrow> string \<Rightarrow> 'a \<Rightarrow> (string \<times> 'a) list" where
  "assign [] k v = [(k, v)]"
| "assign ((k', v') # kvs) k v = (if k' = k then (k, v) # kvs else (k', v') # assign kvs k v)"

definition extractField :: "match \<Rightarrow> string \<times> LookMLField" where
  "extractField mt =
     (let fieldName = group1 mt; fieldContent = group2 mt in
      (fieldName,
       \<lparr> field_name = Some fieldName,
         field_type = trimmedGroup (restOfLinePattern ''type'') fieldContent,
         field_sql = trimmedGroup (untilNextPropertyPattern ''sql'') fieldContent,
         field_primary_key =
           map_option (\<lambda>g. toLowerCase (group1 g) = ''yes'' \<or> toLowerCase (group1 g) = ''true'')
             (jsMatch True primaryKeyPattern fieldContent),
         field_html = trimmedGroup (untilNextPropertyPattern ''html'') fieldContent,
         field_label = plainGroup (quotedPattern ''label'') fieldContent,
         field_description = plainGroup (quotedPattern ''description'') fieldContent \<rparr>))"

definition extractFields :: "string \<Rightarrow> string \<Rightarrow> (string \<times> LookMLField) list" where
  "extractFields content fieldType =
     foldl (\<lambda>fs mt. case extractField mt of (n, f) \<Rightarrow> assign fs n f) []
       (execAll False (fieldRegex fieldType) content)"

definition extractDerivedTable :: "string \<Rightarrow> DerivedTable option" where
  "extractDerivedTable viewContent =
     (case jsMatch False derivedTablePattern viewContent of
        None \<Rightarrow> None
      | Some dm \<Rightarrow>
          Some \<lparr> derived_sql =
                   (case trimmedGroup derivedSqlPattern (group1 dm) of
                      None \<Rightarrow> Some []
                    | Some q \<Rightarrow> Some q) \<rparr>)"

definition extractView :: "match \<Rightarrow> string \<times> LookMLView" where
  "extractView mt =
     (let viewName = group1 mt; viewContent = group2 mt in
      (viewName,
       \<lparr> view_name = Some viewName,
         sql_table_name = trimmedGroup (restOfLinePattern ''sql_table_name'') viewContent,
         derived_table = extractDerivedTable viewContent,
         dimensions = Some (extractFields viewContent ''dimension''),
         dimension_groups = Some (extractFields viewContent ''dimension_group''),
         measures = Some (extractFields viewContent ''measure''),
         filters = Some (extractFields viewContent ''filter'') \<rparr>))"

definition extractViews :: "string \<Rightarrow> (string \<times> LookMLView) list" where
  "extractViews content =
     foldl (\<lambda>vs mt. case extractView mt of (n, v) \<Rightarrow> assign vs n v) []
       (execAll False viewRegex content)"

definition extractJoin :: "match \<Rightarrow> string \<times> LookMLJoin" where
  "extractJoin mt =
     (let joinName = group1 mt; joinContent = group2 mt in
      (joinName,
       \<lparr> join_name = Some joinName,
         sql_on = trimmedGroup (untilNextPropertyPattern ''sql_on'') joinContent,
         relationship = trimmedGroup (restOfLinePattern ''relationship'') joinContent,
         view_label = None \<rparr>))"

definition extractJoins :: "string \<Rightarrow> (string \<times> LookMLJoin) list" where
  "extractJoins content =
     foldl (\<lambda>js mt. case extractJoin mt of (n, j) \<Rightarrow> assign js n j) []
       (execAll False joinRegex content)"

definition extractExplore :: "match \<Rightarrow> string \<times> LookMLExplore" where
  "extractExplore mt =
     (let exploreName = group1 mt; exploreContent = group2 mt in
      (exploreName,
       \<lparr> explore_name = Some exploreName,
         explore_view_name = trimmedGroup (restOfLinePattern ''view_name'') exploreContent,
         joins = Some (extractJoins exploreContent) \<rparr>))"

definition extractExplores :: "string \<Rightarrow> (string \<times> LookMLExplore) list" where
  "extractExplores content =
     foldl (\<lambda>es mt. case extractExplore mt of (n, e) \<Rightarrow> assign es n e) []
       (execAll False exploreRegex content)"

text \<open>\<open>modelContent.match(/include:\s*"([^"]+)"/g)\<close> gives the matched texts, or \<open>null\<close> when
  there is none; each is matched again for its group.\<close>

definition extractIncludes :: "string \<Rightarrow> string list option" where
  "extractIncludes modelContent =
     (case execAll False (quotedPattern ''include'') modelContent of
        [] \<Rightarrow> None
      | ms \<Rightarrow>
          Some (map (\<lambda>mt. case jsMatch False (quotedPattern ''include'') (fst mt) of
                            Some g \<Rightarrow> group1 g
                          | None \<Rightarrow> [])
                  ms))"

definition extractModel :: "match \<Rightarrow> string \<times> LookMLModel" where
  "extractModel mt =
     (let modelName = group1 mt; modelContent = group2 mt in
      (modelName,
       \<lparr> model_name = Some modelName,
         connection = trimmedGroup (restOfLinePattern ''connection'') modelContent,
         model_includes = extractIncludes modelContent \<rparr>))"

definition extractModels :: "string \<Rightarrow> (string \<times> LookMLModel) list" where
  "extractModels content =
     foldl (\<lambda>ms mt. case extractModel mt of (n, md) \<Rightarrow> assign ms n md) []
       (execAll False modelRegex content)"

text \<open>
  \<open>parseLookMLSync\<close> starts from three empty collections and fills them in a \<open>try\<close>
  block whose \<open>catch\<close> returns what is there. The three extractions are total, so the
  \<open>try\<close> block always completes; the result has type \<open>jsError + ParsedLookML\<close> to say
  that nothing is thrown to the caller.
\<close>

definition parseLookMLSync :: "string \<Rightarrow> jsError + ParsedLookML" where
  "parseLookMLSync lookmlContent =
     Inr \<lparr> views = Some (extractViews lookmlContent),
           explores = Some (extractExplores lookmlContent),
           models = Some (extractModels lookmlContent) \<rparr>"

section \<open>The formatter\<close>

subsection \<open>Configuration and line patterns\<close>

text \<open>The formatting options and the two settings. \<open>localeCompare\<close> is the host's
  collation of two names (negative, zero or positive); it is a parameter.\<close>

record config =
  indentSize :: nat
  useSpaces :: bool
  groupFieldsByType :: bool
  sortFields :: bool
  localeCompare :: "string \<Rightarrow> string \<Rightarrow> int"

definition indentString :: "config \<Rightarrow> string" where
  "indentString cfg = (if useSpaces cfg then repeat '' '' (indentSize cfg) else [CHR 0x09])"

text \<open>\<open>this.indentString.repeat(n)\<close>\<close>

definition ind :: "config \<Rightarrow> nat \<Rightarrow> string" where
  "ind cfg n = repeat (indentString cfg) n"

text \<open>\<open>/:\s*\{\s*$/\<close>; a line starts a block when it matches or ends with a brace.\<close>

definition blockStartPattern :: re where
  "blockStartPattern = seqs [Lit CHR '':'', ws0, Lit CHR ''{'', ws0, Eol]"

definition isBlockStart :: "string \<Rightarrow> bool" where
  "isBlockStart trimmedLine = (jsTest False blockStartPattern trimmedLine \<or> endsWith trimmedLine ''{'')"

definition isBlockEnd :: "string \<Rightarrow> bool" where
  "isBlockEnd trimmedLine = (trimmedLine = ''}'' \<or> trimmedLine = ''} ;;'')"

text \<open>\<open>/^([a-zA-Z0-9_]+)\s*:\s*([a-zA-Z0-9_]+)/\<close>, \<open>/^([a-zA-Z0-9_]+)\s*:\s*\{/\<close> and
  \<open>/^([a-zA-Z0-9_]+)\s*:/\<close>\<close>

definition blockMatchWithNamePattern :: re where
  "blockMatchWithNamePattern = seqs [Bol, Grp ident, ws0, Lit CHR '':'', ws0, Grp ident]"

definition blockMatchNoNamePattern :: re where
  "blockMatchNoNamePattern = seqs [Bol, Grp ident, ws0, Lit CHR '':'', ws0, Lit CHR ''{'']"

definition blockTypePattern :: re where
  "blockTypePattern = seqs [Bol, Grp ident, ws0, Lit CHR '':'']"

text \<open>\<open>\b(sql|sql_on|sql_where|sql_always_where|sql_trigger_value|html)\s*:\s*$\<close>, the same
  without the end, and \<open>/\{/\<close>\<close>

definition sqlPropertyNames :: re where
  "sqlPropertyNames =
     Grp (alts [Str ''sql'', Str ''sql_on'', Str ''sql_where'', Str ''sql_always_where'',
                Str ''sql_trigger_value'', Str ''html''])"

definition sqlOpenAlonePattern :: re where
  "sqlOpenAlonePattern = seqs [Wb, sqlPropertyNames, ws0, Lit CHR '':'', ws0, Eol]"

definition sqlOpenPattern :: re where
  "sqlOpenPattern = seqs [Wb, sqlPropertyNames, ws0, Lit CHR '':'']"

definition bracePattern :: re where
  "bracePattern = Lit CHR ''{''"

definition isSqlStart :: "bool \<Rightarrow> string \<Rightarrow> bool" where
  "isSqlStart inSql trimmedLine =
     (\<not> inSql \<and>
      (jsTest False sqlOpenAlonePattern trimmedLine \<or>
       (jsTest False sqlOpenPattern trimmedLine \<and> \<not> jsTest False bracePattern trimmedLine \<and> \<not> inSql)))"

text \<open>\<open>/\b(sql|sql_on|sql_where|sql_always_where|sql_trigger_value)\s*:\s*$/\<close> and
  \<open>/\bhtml\s*:\s*$/\<close>\<close>

definition sqlOnlyAlonePattern :: re where
  "sqlOnlyAlonePattern =
     seqs [Wb, Grp (alts [Str ''sql'', Str ''sql_on'', Str ''sql_where'', Str ''sql_always_where'',
                          Str ''sql_trigger_value'']), ws0, Lit CHR '':'', ws0, Eol]"

definition htmlAlonePattern :: re where
  "htmlAlonePattern = seqs [Wb, Str ''html'', ws0, Lit CHR '':'', ws0, Eol]"

text \<open>\<open>/^\s*(SELECT|FROM|WHERE|GROUP\s+BY|ORDER\s+BY|HAVING|LIMIT|JOIN|UNION)/i\<close>, and the longer
  list of \<open>formatLines\<close> and \<open>addFormattedFieldContent\<close>, which goes on with
  \<open>|LEFT JOIN|RIGHT JOIN|INNER JOIN|FULL JOIN|OUTER JOIN\<close>.\<close>

definition mainKeywords :: "re list" where
  "mainKeywords =
     [Str ''SELECT'', Str ''FROM'', Str ''WHERE'', seqs [Str ''GROUP'', ws1, Str ''BY''],
      seqs [Str ''ORDER'', ws1, Str ''BY''], Str ''HAVING'', Str ''LIMIT'', Str ''JOIN'', Str ''UNION'']"

definition mainKeywordPattern :: re where
  "mainKeywordPattern = seqs [Bol, ws0, Grp (alts mainKeywords)]"

definition mainKeywordPatternLong :: re where
  "mainKeywordPatternLong =
     seqs [Bol, ws0,
           Grp (alts (mainKeywords @ [Str ''LEFT JOIN'', Str ''RIGHT JOIN'', Str ''INNER JOIN'',
                                       Str ''FULL JOIN'', Str ''OUTER JOIN'']))]"

text \<open>\<open>/^#\s*-----\s*.*\s*-----\s*$/\<close>; the dot is any character but a line terminator.\<close>

definition generatedCommentPattern :: re where
  "generatedCommentPattern =
     seqs [Bol, Lit CHR ''#'', ws0, Str ''-----'', ws0, Star (NSet [Ch nl, Ch CHR 0x0D]), ws0,
           Str ''-----'', ws0, Eol]"

definition isFormatterGeneratedComment :: "string \<Rightarrow> bool" where
  "isFormatterGeneratedComment comment = jsTest False generatedCommentPattern comment"

definition isFieldType :: "string \<Rightarrow> bool" where
  "isFieldType t = (t = ''dimension'' \<or> t = ''dimension_group'' \<or> t = ''measure''
                    \<or> t = ''parameter'' \<or> t = ''filter'')"

subsection \<open>Properties, block openers and SQL text\<close>

text \<open>\<open>line.substring(0, colonIndex)\<close> and \<open>line.substring(colonIndex + 1)\<close> at the first colon.\<close>

definition beforeColon :: "string \<Rightarrow> string" where
  "beforeColon line = takeWhile (\<lambda>c. c \<noteq> CHR '':'') line"

definition afterColon :: "string \<Rightarrow> string" where
  "afterColon line = drop 1 (dropWhile (\<lambda>c. c \<noteq> CHR '':'') line)"

definition formatBlockOpener :: "string \<Rightarrow> string" where
  "formatBlockOpener line =
     (if includesStr line '':'' then trim (beforeColon line) @ '': '' @ trim (afterColon line)
      else line)"

definition formatLookMLProperty :: "string \<Rightarrow> string" where
  "formatLookMLProperty line =
     (if includesStr line '':'' then
        (let propName = trim (beforeColon line);
             propValue = trim (afterColon line);
             propValue' =
               (if endsWith propValue '';;'' \<and> \<not> endsWith propValue '' ;;''
                then trim (butlast (butlast propValue)) @ '' ;;''
                else propValue)
         in propName @ '': '' @ propValue')
      else line)"

text \<open>The keywords of \<open>formatSqlKeywords\<close>, in the order of the source.\<close>

definition sqlKeywords :: "string list" where
  "sqlKeywords =
     [''SELECT'', ''FROM'', ''WHERE'', ''GROUP BY'', ''ORDER BY'',
      ''HAVING'', ''JOIN'', ''LEFT JOIN'', ''RIGHT JOIN'', ''INNER JOIN'',
      ''FULL JOIN'', ''OUTER JOIN'', ''ON'', ''AND'', ''OR'', ''AS'', ''WITH'', ''UNION'', ''EXCEPT'',
      ''INTERSECT'', ''CASE'', ''WHEN'', ''THEN'', ''ELSE'', ''END'', ''LIMIT'',
      ''OFFSET'', ''COUNT'', ''SUM'', ''AVG'', ''MIN'', ''MAX'', ''BETWEEN'', ''IN'',
      ''EXISTS'', ''DISTINCT'', ''ALL'']"

text \<open>\<open>keyword.split(' ')\<close> for a keyword of one or two words.\<close>

definition keywordParts :: "string \<Rightarrow> string list" where
  "keywordParts keyword =
     (if includesStr keyword '' ''
      then [takeWhile (\<lambda>c. c \<noteq> CHR '' '') keyword, drop 1 (dropWhile (\<lambda>c. c \<noteq> CHR '' '') keyword)]
      else [keyword])"

text \<open>\<open>\bWORD\b\<close>, or \<open>\bFIRST\s+SECOND\b\<close> for a keyword of two words; always with the
  \<open>i\<close> flag and without the \<open>g\<close> flag.\<close>

definition keywordPattern :: "string \<Rightarrow> re" where
  "keywordPattern keyword =
     (case keywordParts keyword of
        [a, b] \<Rightarrow> seqs [Wb, Str a, ws1, Str b, Wb]
      | _ \<Rightarrow> seqs [Wb, Str keyword, Wb])"

text \<open>One round of \<open>sqlKeywords.forEach\<close>: the first match of the keyword, if any, is
  replaced by \<open>replacement\<close>.\<close>

definition replaceKeyword :: "string \<Rightarrow> string \<Rightarrow> string \<Rightarrow> string" where
  "replaceKeyword keyword replacement formattedLine =
     (if jsTest True (keywordPattern keyword) formattedLine
      then jsReplace True (keywordPattern keyword) (\<lambda>g. replacement) formattedLine
      else formattedLine)"

text \<open>\<open>/([<>=!])([^=<>\s])/g\<close>, \<open>/([^\s<>=!])([<>=!])/g\<close> and \<open>/\s{2,}/g\<close>\<close>

definition operatorChars :: "atom list" where
  "operatorChars = [Ch CHR ''<'', Ch CHR ''>'', Ch CHR ''='', Ch CHR ''!'']"

definition spaceAfterPattern :: re where
  "spaceAfterPattern =
     Seq (Grp (Set operatorChars)) (Grp (NSet [Ch CHR ''='', Ch CHR ''<'', Ch CHR ''>'', Ws]))"

definition spaceBeforePattern :: re where
  "spaceBeforePattern =
     Seq (Grp (NSet [Ws, Ch CHR ''<'', Ch CHR ''>'', Ch CHR ''='', Ch CHR ''!''])) (Grp (Set operatorChars))"

definition extraSpacesPattern :: re where
  "extraSpacesPattern = Seq (Set [Ws]) (Plus (Set [Ws]))"

text \<open>The replacement \<open>"$1 $2"\<close>.\<close>

definition spaced :: "match \<Rightarrow> string" where
  "spaced g = group1 g @ '' '' @ group2 g"

definition spaceOperators :: "string \<Rightarrow> string" where
  "spaceOperators line =
     jsReplaceAll False extraSpacesPattern (\<lambda>g. '' '')
       (jsReplaceAll False spaceBeforePattern spaced
          (jsReplaceAll False spaceAfterPattern spaced line))"

definition formatSqlKeywords :: "string \<Rightarrow> string" where
  "formatSqlKeywords line =
     spaceOperators (foldl (\<lambda>formattedLine keyword. replaceKeyword keyword keyword formattedLine)
                       line sqlKeywords)"

definition lookmlVarKeywords :: "string list" where
  "lookmlVarKeywords =
     [''where'', ''and'', ''or'', ''from'', ''join'', ''group by'', ''order by'', ''having'']"

definition formatSqlWithLookMLVars :: "string \<Rightarrow> string" where
  "formatSqlWithLookMLVars line =
     foldl (\<lambda>formattedLine keyword. replaceKeyword keyword (toUpperCase keyword) formattedLine)
       line lookmlVarKeywords"

text \<open>The text before the first \<open>;;\<close>, trimmed: \<open>parts[0].trim()\<close>.\<close>

definition beforeTerminator :: "string \<Rightarrow> string" where
  "beforeTerminator trimmedLine =
     (case splitSemis [] trimmedLine of [] \<Rightarrow> [] | part # parts \<Rightarrow> trim part)"

text \<open>The SQL text of a content line in \<open>formatLines\<close> and in a field: a line with a
  template marker is left alone, unless it holds \<open>${\<close>.\<close>

definition formatSqlContent :: "string \<Rightarrow> string" where
  "formatSqlContent trimmedLine =
     (if \<not> includesStr trimmedLine ''{%'' \<and> \<not> includesStr trimmedLine ''{{''
         \<and> \<not> includesStr trimmedLine ''${''
      then formatSqlKeywords trimmedLine
      else if includesStr trimmedLine ''${'' then formatSqlWithLookMLVars trimmedLine
      else trimmedLine)"

text \<open>The indentation of a line of SQL: fixed levels inside a derived table, one or two
  levels below the property otherwise.\<close>

definition sqlIndent :: "bool \<Rightarrow> bool \<Rightarrow> nat \<Rightarrow> nat" where
  "sqlIndent isDerivedTable isMainSqlKeyword base =
     (if isDerivedTable then (if isMainSqlKeyword then 3 else 4)
      else if isMainSqlKeyword then base + 1 else base + 2)"

subsection \<open>The line formatter \<open>formatLines\<close>\<close>

record lstate =
  l_indentLevel :: nat
  l_inSqlBlock :: bool
  l_sqlBlockIndent :: nat
  l_blockStack :: "(string \<times> nat) list"
  formattedLines :: "string list"

definition emit :: "string \<Rightarrow> lstate \<Rightarrow> lstate" where
  "emit line st = st\<lparr>formattedLines := formattedLines st @ [line]\<rparr>"

text \<open>The body of the loop of \<open>formatLines\<close>; the stack grows at its end.\<close>

definition formatLine :: "config \<Rightarrow> string \<Rightarrow> lstate \<Rightarrow> lstate" where
  "formatLine cfg line st =
     (let trimmedLine = trim line in
      if trimmedLine = [] then emit [] st
      else if isBlockStart trimmedLine then
        (let blockType = (case jsMatch False blockTypePattern trimmedLine of
                            Some g \<Rightarrow> group1 g | None \<Rightarrow> ''unknown'');
             opener = formatBlockOpener trimmedLine
         in emit (ind cfg (l_indentLevel st) @ opener)
              (st\<lparr>l_blockStack := l_blockStack st @ [(blockType, l_indentLevel st)]\<rparr>)
              \<lparr>l_indentLevel := l_indentLevel st + 1\<rparr>)
      else if isBlockEnd trimmedLine then
        (let lvl = l_indentLevel st - 1
         in emit (ind cfg lvl @ trimmedLine)
              (st\<lparr>l_indentLevel := lvl, l_blockStack := butlast (l_blockStack st)\<rparr>))
      else if isSqlStart (l_inSqlBlock st) trimmedLine then
        emit (ind cfg (l_indentLevel st) @ formatLookMLProperty trimmedLine)
          (st\<lparr>l_inSqlBlock := True, l_sqlBlockIndent := l_indentLevel st\<rparr>)
      else if l_inSqlBlock st \<and> (trimmedLine = '';;'' \<or> endsWith trimmedLine '';;'') then
        (if trimmedLine = '';;'' \<or> trimmedLine = ''; ;''
         then emit (ind cfg (l_indentLevel st) @ '';;'') (st\<lparr>l_inSqlBlock := False\<rparr>)
         else emit (ind cfg (l_sqlBlockIndent st) @ formatSqlKeywords (beforeTerminator trimmedLine) @ '' ;;'')
                (st\<lparr>l_inSqlBlock := False\<rparr>))
      else if l_inSqlBlock st then
        (let sqlLine = formatSqlContent trimmedLine;
             isMainSqlKeyword = jsTest True mainKeywordPatternLong sqlLine;
             isDerivedTable = list_ex (\<lambda>block. fst block = ''derived_table'') (l_blockStack st);
             effectiveIndent = sqlIndent isDerivedTable isMainSqlKeyword (l_sqlBlockIndent st)
         in emit (ind cfg effectiveIndent @ trimStart sqlLine) st)
      else if includesStr trimmedLine '':'' \<and> \<not> endsWith trimmedLine ''{'' then
        (let formattedLine = formatLookMLProperty trimmedLine;
             formattedLine' =
               (if endsWith formattedLine '';;'' \<and> \<not> endsWith formattedLine '' ;;''
                then beforeTerminator formattedLine @ '' ;;''
                else formattedLine);
             st' = (if jsTest False sqlOnlyAlonePattern formattedLine'
                    then st\<lparr>l_inSqlBlock := True, l_sqlBlockIndent := l_indentLevel st\<rparr>
                    else st)
         in emit (ind cfg (l_indentLevel st) @ formattedLine') st')
      else emit (ind cfg (l_indentLevel st) @ trimmedLine) st)"

definition formatLines :: "config \<Rightarrow> string list \<Rightarrow> string list" where
  "formatLines cfg lines =
     formattedLines
       (foldl (\<lambda>st line. formatLine cfg line st)
          \<lparr>l_indentLevel = 0, l_inSqlBlock = False, l_sqlBlockIndent = 0, l_blockStack = [],
            formattedLines = []\<rparr>
          lines)"

subsection \<open>Parsing the views\<close>

text \<open>
  The two interfaces of the formatter. A view refers to its fields by their index in a
  store of blocks: the source keeps a field in the list of its view and, while the
  field is open, in \<open>currentField\<close>, and writes to it through either.
\<close>

type_synonym stackEntry = "string \<times> nat \<times> string"

record LookMLBlock =
  block_type :: string
  block_name :: string
  block_startLine :: nat
  block_endLine :: int
  content :: "string list"
  rawContent :: "string list"
  indent :: nat
  comments :: "string list"
  parentBlocks :: "stackEntry list"

record FormatterView =
  fv_name :: string
  fv_startLine :: nat
  fv_endLine :: int
  header :: "string list"
  footer :: "string list"
  fv_fields :: "nat list"
  nonFieldBlocks :: "string list"

text \<open>The variables of \<open>parseViews\<close>. \<open>inView\<close> is true exactly when \<open>currentView\<close> is
  set, so the two are one component.\<close>

record pstate =
  p_views :: "FormatterView list"
  currentView :: "FormatterView option"
  blockStack :: "stackEntry list"
  indentLevel :: nat
  currentField :: "nat option"
  store :: "LookMLBlock list"
  pendingComments :: "string list"
  inSqlBlock :: bool
  sqlBlockIndent :: nat
  hasEncounteredFieldInView :: bool

definition inView :: "pstate \<Rightarrow> bool" where
  "inView st = (currentView st \<noteq> None)"

text \<open>\<open>currentView!.nonFieldBlocks.push(line)\<close>\<close>

definition pushNonField :: "string \<Rightarrow> pstate \<Rightarrow> pstate" where
  "pushNonField line st =
     st\<lparr>currentView := map_option (\<lambda>v. v\<lparr>nonFieldBlocks := nonFieldBlocks v @ [line]\<rparr>) (currentView st)\<rparr>"

text \<open>A write to the block that \<open>currentField\<close> refers to.\<close>

definition updateField :: "nat \<Rightarrow> (LookMLBlock \<Rightarrow> LookMLBlock) \<Rightarrow> pstate \<Rightarrow> pstate" where
  "updateField r f st =
     (if r < length (store st) then st\<lparr>store := (store st)[r := f (store st ! r)]\<rparr> else st)"

text \<open>\<open>content.push(formatted); rawContent.push(raw)\<close>\<close>

definition pushContent :: "string \<Rightarrow> string \<Rightarrow> LookMLBlock \<Rightarrow> LookMLBlock" where
  "pushContent formatted raw b = b\<lparr>content := content b @ [formatted], rawContent := rawContent b @ [raw]\<rparr>"

definition typeAndName :: "string \<Rightarrow> string \<times> string" where
  "typeAndName trimmedLine =
     (case jsMatch False blockMatchWithNamePattern trimmedLine of
        Some g \<Rightarrow> (group1 g, group2 g)
      | None \<Rightarrow>
          (case jsMatch False blockMatchNoNamePattern trimmedLine of
             Some g \<Rightarrow> (group1 g, [])
           | None \<Rightarrow> ([], [])))"

definition inDerivedTable :: "stackEntry list \<Rightarrow> bool" where
  "inDerivedTable stack = list_ex (\<lambda>block. fst block = ''derived_table'') stack"

text \<open>A line that starts a block.\<close>

definition parseBlockStart :: "config \<Rightarrow> nat \<Rightarrow> string \<Rightarrow> string \<Rightarrow> pstate \<Rightarrow> pstate" where
  "parseBlockStart cfg i line trimmedLine st0 =
     (case typeAndName trimmedLine of (blockType, blockName) \<Rightarrow>
      let st = st0\<lparr>blockStack := blockStack st0 @ [(blockType, indentLevel st0, blockName)]\<rparr>;
          st' =
            (if blockType = ''view'' \<and> \<not> inView st then
               st\<lparr>hasEncounteredFieldInView := False,
                  currentView :=
                    Some \<lparr>fv_name = blockName, fv_startLine = i, fv_endLine = - 1, header = [line],
                          footer = [], fv_fields = [], nonFieldBlocks = pendingComments st\<rparr>,
                  pendingComments := []\<rparr>
             else if inView st \<and> isFieldType blockType then
               st\<lparr>hasEncounteredFieldInView := True,
                  store := store st @
                    [\<lparr>block_type = blockType, block_name = blockName, block_startLine = i,
                      block_endLine = - 1,
                      content = [ind cfg (indentLevel st) @ formatBlockOpener trimmedLine],
                      rawContent = [trimmedLine], indent = indentLevel st,
                      comments = pendingComments st, parentBlocks = blockStack st\<rparr>],
                  currentField := Some (length (store st)),
                  currentView :=
                    map_option (\<lambda>v. v\<lparr>fv_fields := fv_fields v @ [length (store st)]\<rparr>) (currentView st),
                  pendingComments := []\<rparr>
             else if inView st then
               (case currentField st of
                  Some r \<Rightarrow>
                    updateField r
                      (pushContent (ind cfg (indentLevel st) @ formatBlockOpener trimmedLine) trimmedLine) st
                | None \<Rightarrow> pushNonField (ind cfg (indentLevel st) @ formatBlockOpener trimmedLine) st)
             else st)
      in st'\<lparr>indentLevel := indentLevel st' + 1\<rparr>)"

text \<open>A line that ends a block.\<close>

definition parseBlockEnd :: "config \<Rightarrow> nat \<Rightarrow> string \<Rightarrow> string \<Rightarrow> pstate \<Rightarrow> pstate" where
  "parseBlockEnd cfg i line trimmedLine st0 =
     (let st = st0\<lparr>indentLevel := indentLevel st0 - 1\<rparr> in
      if blockStack st = [] then st
      else
        (let lastType = fst (last (blockStack st));
             st1 = st\<lparr>blockStack := butlast (blockStack st)\<rparr>
         in if currentField st1 \<noteq> None \<and> lastType \<noteq> [] \<and> isFieldType lastType then
              (case currentField st1 of
                 Some r \<Rightarrow>
                   (updateField r
                      (\<lambda>b. (pushContent (ind cfg (indentLevel st1) @ trimmedLine) trimmedLine b)
                              \<lparr>block_endLine := int i\<rparr>) st1)
                   \<lparr>currentField := None\<rparr>
               | None \<Rightarrow> st1)
            else if inView st1 \<and> lastType = ''view'' then
              (case currentView st1 of
                 Some v \<Rightarrow>
                   st1\<lparr>p_views := p_views st1 @ [v\<lparr>footer := footer v @ [line], fv_endLine := int i\<rparr>],
                       currentView := None\<rparr>
               | None \<Rightarrow> st1)
            else if inView st1 \<and> currentField st1 \<noteq> None then
              (case currentField st1 of
                 Some r \<Rightarrow> updateField r (pushContent (ind cfg (indentLevel st1) @ trimmedLine) trimmedLine) st1
               | None \<Rightarrow> st1)
            else if inView st1 then pushNonField line st1
            else st1))"

text \<open>A content line inside a view and outside every field: the SQL of the view
  itself (of a derived table, mostly).\<close>

definition parseViewContent :: "config \<Rightarrow> string \<Rightarrow> string \<Rightarrow> pstate \<Rightarrow> pstate" where
  "parseViewContent cfg line trimmedLine st =
     (if isSqlStart (inSqlBlock st) trimmedLine then
        (pushNonField (ind cfg (indentLevel st) @ formatLookMLProperty trimmedLine) st)
          \<lparr>inSqlBlock := True, sqlBlockIndent := indentLevel st\<rparr>
      else if inSqlBlock st \<and> endsWith trimmedLine '';;'' then
        (if beforeTerminator trimmedLine \<noteq> [] then
           (let formattedSql = formatSqlKeywords (beforeTerminator trimmedLine);
                isDerivedTable = inDerivedTable (blockStack st);
                effectiveIndent =
                  (if isDerivedTable
                   then (if jsTest True mainKeywordPattern formattedSql then 3 else 4)
                   else sqlBlockIndent st + 1)
            in (pushNonField (ind cfg effectiveIndent @ formattedSql @ '' ;;'') st)\<lparr>inSqlBlock := False\<rparr>)
         else (pushNonField (ind cfg (sqlBlockIndent st) @ '';;'') st)\<lparr>inSqlBlock := False\<rparr>)
      else if inSqlBlock st then
        (let formattedLine = formatSqlKeywords trimmedLine;
             isDerivedTable = inDerivedTable (blockStack st);
             isMainSqlKeyword = jsTest True mainKeywordPattern formattedLine;
             effectiveIndent = sqlIndent isDerivedTable isMainSqlKeyword (sqlBlockIndent st)
         in pushNonField (ind cfg effectiveIndent @ trimStart formattedLine) st)
      else if includesStr trimmedLine '':'' \<and> \<not> endsWith trimmedLine ''{'' then
        pushNonField (ind cfg (indentLevel st) @ formatLookMLProperty trimmedLine) st
      else pushNonField line st)"

text \<open>The body of the loop of \<open>parseViews\<close>, for line \<open>i\<close>.\<close>

definition parseLine :: "config \<Rightarrow> nat \<Rightarrow> string \<Rightarrow> pstate \<Rightarrow> pstate" where
  "parseLine cfg i line st =
     (let trimmedLine = trim line in
      if trimmedLine = [] then
        (if inView st \<and> currentField st = None then pushNonField line st else st)
      else if startsWith trimmedLine ''#'' then
        (case currentField st of
           Some r \<Rightarrow>
             updateField r
               (\<lambda>b. b\<lparr>comments := comments b @ [trimmedLine],
                       content := content b @ [ind cfg (indent b + 1) @ trimmedLine]\<rparr>) st
         | None \<Rightarrow>
             if inView st then
               (if \<not> hasEncounteredFieldInView st then pushNonField trimmedLine st
                else st\<lparr>pendingComments := pendingComments st @ [trimmedLine]\<rparr>)
             else st)
      else if isBlockStart trimmedLine then parseBlockStart cfg i line trimmedLine st
      else if isBlockEnd trimmedLine then parseBlockEnd cfg i line trimmedLine st
      else if inView st then
        (case currentField st of
           Some r \<Rightarrow>
             (let formattedLine =
                    (if includesStr trimmedLine '':'' \<and> \<not> endsWith trimmedLine ''{''
                     then formatLookMLProperty trimmedLine else trimmedLine)
              in updateField r (pushContent (ind cfg (indentLevel st) @ formattedLine) trimmedLine) st)
         | None \<Rightarrow> parseViewContent cfg line trimmedLine st)
      else st)"

primrec parseLoop :: "config \<Rightarrow> nat \<Rightarrow> string list \<Rightarrow> pstate \<Rightarrow> pstate" where
  "parseLoop cfg i [] st = st"
| "parseLoop cfg i (line # lines) st = parseLoop cfg (Suc i) lines (parseLine cfg i line st)"

definition initialPState :: pstate where
  "initialPState =
     \<lparr>p_views = [], currentView = None, blockStack = [], indentLevel = 0, currentField = None,
      store = [], pendingComments = [], inSqlBlock = False, sqlBlockIndent = 0,
      hasEncounteredFieldInView = False\<rparr>"

text \<open>\<open>parseViews\<close> returns the closed views; the store goes with them.\<close>

definition parseViews :: "config \<Rightarrow> string list \<Rightarrow> FormatterView list \<times> LookMLBlock list" where
  "parseViews cfg lines = (let st = parseLoop cfg 0 lines initialPState in (p_views st, store st))"

subsection \<open>Writing a view\<close>

text \<open>\<open>/color:(\w+)/g\<close>, replaced by \<open>"color: $1"\<close>\<close>

definition colorPattern :: re where
  "colorPattern = Seq (Str ''color:'') (Grp (Plus (Set [Wd])))"

definition isHtmlContent :: "LookMLBlock \<Rightarrow> bool" where
  "isHtmlContent field = list_ex (\<lambda>line. jsTest False htmlAlonePattern (trim line)) (rawContent field)"

text \<open>The text of a line inside the SQL or HTML of a field.\<close>

definition fieldSqlLine :: "LookMLBlock \<Rightarrow> string \<Rightarrow> string" where
  "fieldSqlLine field trimmedLine =
     (if isHtmlContent field then
        (if includesStr trimmedLine ''color:''
         then jsReplaceAll False colorPattern (\<lambda>g. ''color: '' @ group1 g) trimmedLine
         else trimmedLine)
      else formatSqlContent trimmedLine)"

text \<open>The loop of \<open>addFormattedFieldContent\<close> over the raw lines after the first, with its
  two variables \<open>nestedIndentLevel\<close> and \<open>inSqlBlock\<close>.\<close>

primrec fieldLoop ::
  "config \<Rightarrow> LookMLBlock \<Rightarrow> string list \<Rightarrow> nat \<Rightarrow> bool \<Rightarrow> string list \<Rightarrow> string list" where
  "fieldLoop cfg field [] nestedIndentLevel inSql output = output"
| "fieldLoop cfg field (line # lines) nestedIndentLevel inSql output =
     (let trimmedLine = trim line; blockIndent = indent field + 1 in
      if isBlockStart trimmedLine then
        fieldLoop cfg field lines (nestedIndentLevel + 1) inSql
          (output @ [ind cfg nestedIndentLevel @ formatBlockOpener trimmedLine])
      else if isBlockEnd trimmedLine then
        (if nestedIndentLevel - 1 < blockIndent
         then fieldLoop cfg field lines blockIndent False
                (output @ [ind cfg (indent field) @ trimmedLine])
         else fieldLoop cfg field lines (nestedIndentLevel - 1) False
                (output @ [ind cfg (nestedIndentLevel - 1) @ trimmedLine]))
      else if isSqlStart inSql trimmedLine then
        fieldLoop cfg field lines nestedIndentLevel True
          (output @ [ind cfg nestedIndentLevel @ formatLookMLProperty trimmedLine])
      else if inSql \<and> (trimmedLine = '';;'' \<or> endsWith trimmedLine '';;'') then
        (if trimmedLine = '';;'' \<or> trimmedLine = ''; ;''
         then fieldLoop cfg field lines nestedIndentLevel False
                (output @ [ind cfg nestedIndentLevel @ '';;''])
         else fieldLoop cfg field lines nestedIndentLevel False
                (output @ [ind cfg nestedIndentLevel @ formatSqlKeywords (beforeTerminator trimmedLine) @ '';;'']))
      else if inSql then
        (let formattedLine = fieldSqlLine field trimmedLine;
             isDerivedTable = inDerivedTable (parentBlocks field);
             isMainSqlKeyword = jsTest True mainKeywordPatternLong formattedLine;
             sqlInd = sqlIndent isDerivedTable isMainSqlKeyword nestedIndentLevel
         in fieldLoop cfg field lines nestedIndentLevel inSql
              (output @ [ind cfg sqlInd @ trimStart formattedLine]))
      else if trimmedLine = [] then fieldLoop cfg field lines nestedIndentLevel inSql (output @ [[]])
      else if startsWith trimmedLine ''#'' then
        fieldLoop cfg field lines nestedIndentLevel inSql (output @ [ind cfg nestedIndentLevel @ trimmedLine])
      else if includesStr trimmedLine '':'' \<and> \<not> endsWith trimmedLine ''{'' then
        fieldLoop cfg field lines nestedIndentLevel inSql
          (output @ [ind cfg nestedIndentLevel @ formatLookMLProperty trimmedLine])
      else fieldLoop cfg field lines nestedIndentLevel inSql (output @ [ind cfg nestedIndentLevel @ trimmedLine]))"

text \<open>\<open>content\<close> and \<open>rawContent\<close> hold the opening line of the field from the moment the
  field is made, so neither is empty.\<close>

definition addFormattedFieldContent :: "config \<Rightarrow> string list \<Rightarrow> LookMLBlock \<Rightarrow> string list" where
  "addFormattedFieldContent cfg output field =
     (let first = (case content field of [] \<Rightarrow> [] | l # ls \<Rightarrow> l);
          blockStart = (if groupFieldsByType cfg then ind cfg 1 @ trimStart first else first)
      in fieldLoop cfg field (drop 1 (rawContent field)) (indent field + 1) False (output @ [blockStart]))"

text \<open>A blank line, the comments of the field, and the field.\<close>

definition addField :: "config \<Rightarrow> nat \<Rightarrow> string list \<Rightarrow> LookMLBlock \<Rightarrow> string list" where
  "addField cfg indentLvl output field =
     addFormattedFieldContent cfg
       (output @ [[]] @ map (\<lambda>comment. ind cfg indentLvl @ comment) (comments field)) field"

definition linePresent :: "string list \<Rightarrow> string \<Rightarrow> bool" where
  "linePresent output marker = list_ex (\<lambda>line. trim line = marker) output"

definition addFieldSection ::
  "config \<Rightarrow> string list \<Rightarrow> LookMLBlock list \<Rightarrow> string \<Rightarrow> nat \<Rightarrow> string list" where
  "addFieldSection cfg output fs sectionName indentLvl =
     (if fs = [] then output
      else
        (let sectionHeader = ''# ----- '' @ sectionName @ '' -----'';
             out1 = (if groupFieldsByType cfg \<and> \<not> linePresent output sectionHeader
                     then output @ [ind cfg indentLvl @ sectionHeader] else output);
             out2 = foldl (addField cfg indentLvl) out1 fs;
             sectionFooter = ''# ----- End of '' @ sectionName @ '' -----''
         in if groupFieldsByType cfg \<and> \<not> linePresent out2 sectionFooter
            then out2 @ [ind cfg indentLvl @ sectionFooter] else out2))"

text \<open>
  \<open>xs.sort((a, b) => a.name.localeCompare(b.name))\<close>: the sort of the host is stable, so
  for a collation that is an order it is the insertion of each block behind the
  blocks that do not come after it.
\<close>

fun insertByName :: "(string \<Rightarrow> string \<Rightarrow> int) \<Rightarrow> LookMLBlock \<Rightarrow> LookMLBlock list \<Rightarrow> LookMLBlock list" where
  "insertByName cmp x [] = [x]"
| "insertByName cmp x (y # ys) =
     (if cmp (block_name x) (block_name y) < 0 then x # y # ys else y # insertByName cmp x ys)"

definition sortByName :: "(string \<Rightarrow> string \<Rightarrow> int) \<Rightarrow> LookMLBlock list \<Rightarrow> LookMLBlock list" where
  "sortByName cmp xs = foldl (\<lambda>sorted x. insertByName cmp x sorted) [] xs"

definition ofType :: "string \<Rightarrow> LookMLBlock list \<Rightarrow> LookMLBlock list" where
  "ofType t fs = filter (\<lambda>field. block_type field = t) fs"

definition sortIfNeeded :: "config \<Rightarrow> LookMLBlock list \<Rightarrow> LookMLBlock list" where
  "sortIfNeeded cfg fs = (if sortFields cfg then sortByName (localeCompare cfg) fs else fs)"

text \<open>The section of a category opens with one blank line if no section came before.\<close>

definition addSection :: "config \<Rightarrow> LookMLBlock list \<Rightarrow> string \<Rightarrow> nat \<Rightarrow> bool \<times> string list \<Rightarrow> bool \<times> string list" where
  "addSection cfg fs sectionName fieldIndent acc =
     (case acc of (hasAddedFirstSection, output) \<Rightarrow>
        if fs = [] then acc
        else (True, addFieldSection cfg (if hasAddedFirstSection then output else output @ [[]])
                      fs sectionName fieldIndent))"

definition organizeViewFields :: "config \<Rightarrow> LookMLBlock list \<Rightarrow> string list \<Rightarrow> string list" where
  "organizeViewFields cfg fs output =
     (let filts = sortIfNeeded cfg (ofType ''filter'' fs);
          params = sortIfNeeded cfg (ofType ''parameter'' fs);
          dims = sortIfNeeded cfg (ofType ''dimension'' fs);
          dimGroups = sortIfNeeded cfg (ofType ''dimension_group'' fs);
          meas = sortIfNeeded cfg (ofType ''measure'' fs);
          others = filter (\<lambda>field. \<not> isFieldType (block_type field)) fs;
          fieldIndent = (case fs of [] \<Rightarrow> 1 | f # fs' \<Rightarrow> indent f);
          sections =
            addSection cfg meas ''Measures'' fieldIndent
              (addSection cfg (dims @ dimGroups) ''Dimensions'' fieldIndent
                 (addSection cfg params ''Parameters'' fieldIndent
                    (addSection cfg filts ''Filters'' fieldIndent (False, output))))
      in foldl (addField cfg fieldIndent) (snd sections) others)"

text \<open>The blocks a view refers to.\<close>

definition fieldsOf :: "LookMLBlock list \<Rightarrow> FormatterView \<Rightarrow> LookMLBlock list" where
  "fieldsOf blocks view =
     concat (map (\<lambda>r. if r < length blocks then [blocks ! r] else []) (fv_fields view))"

definition viewLevelLine :: "config \<Rightarrow> string \<Rightarrow> string" where
  "viewLevelLine cfg line =
     (let trimmedLine = trim line in
      if startsWith trimmedLine ''#'' then ind cfg 1 @ trimmedLine
      else if includesStr trimmedLine '':'' \<and> \<not> includesStr trimmedLine ''{'' then ind cfg 1 @ trimmedLine
      else line)"

definition formatView :: "config \<Rightarrow> LookMLBlock list \<Rightarrow> FormatterView \<Rightarrow> string list \<Rightarrow> string list" where
  "formatView cfg blocks view output =
     (let nonEmptyNonFieldBlocks =
            filter (\<lambda>line. trim line \<noteq> [] \<and> \<not> isFormatterGeneratedComment (trim line))
              (nonFieldBlocks view);
          out1 = output @ header view @ map (viewLevelLine cfg) nonEmptyNonFieldBlocks;
          out2 =
            (if groupFieldsByType cfg \<or> sortFields cfg
             then organizeViewFields cfg (fieldsOf blocks view) out1
             else out1 @ concat (map (\<lambda>field. content field @ [[]]) (fieldsOf blocks view)))
      in out2 @ footer view)"

subsection \<open>The document\<close>

text \<open>The loop over the views: the lines before a view are copied, the view is written,
  and the copy goes on behind its last line.\<close>

primrec viewsLoop ::
  "config \<Rightarrow> LookMLBlock list \<Rightarrow> string list \<Rightarrow> FormatterView list \<Rightarrow> nat \<Rightarrow> string list \<Rightarrow> string list" where
  "viewsLoop cfg blocks lines [] currentLine output = output @ drop currentLine lines"
| "viewsLoop cfg blocks lines (view # vs) currentLine output =
     viewsLoop cfg blocks lines vs (nat (fv_endLine view + 1))
       (formatView cfg blocks view (output @ drop currentLine (take (fv_startLine view) lines)))"

definition formatWithAdvancedOptions :: "config \<Rightarrow> string list \<Rightarrow> string list" where
  "formatWithAdvancedOptions cfg lines =
     (case parseViews cfg lines of (vs, blocks) \<Rightarrow>
        if vs = [] then formatLines cfg lines
        else viewsLoop cfg blocks lines vs 0 [])"

text \<open>\<open>/\r?\n/\<close>\<close>

definition lineBreakPattern :: re where
  "lineBreakPattern = Seq (Opt (Lit CHR 0x0D)) (Lit nl)"

text \<open>An edit replaces the text between two offsets.\<close>

record TextEdit =
  range_start :: nat
  range_end :: nat
  newText :: string

definition format :: "config \<Rightarrow> string \<Rightarrow> TextEdit list" where
  "format cfg txt =
     (let lines = jsSplit lineBreakPattern txt;
          formattedLines =
            (if \<not> groupFieldsByType cfg \<and> \<not> sortFields cfg then formatLines cfg lines
             else formatWithAdvancedOptions cfg lines);
          formattedText = joinWith [nl] formattedLines
      in if formattedText \<noteq> txt
         then [\<lparr>range_start = 0, range_end = length txt, newText = formattedText\<rparr>]
         else [])"

text \<open>The document after its edits, as the tests of the formatter apply them.\<close>

definition formatDocument :: "config \<Rightarrow> string \<Rightarrow> string" where
  "formatDocument cfg txt =
     (case format cfg txt of
        [] \<Rightarrow> txt
      | edit # edits \<Rightarrow> take (range_start edit) txt @ newText edit @ drop (range_end edit) txt)"

section \<open>Definitions for the statements\<close>

text \<open>The least number of characters a match of a pattern consumes, the number of groups
  it closes, and the patterns for which that number is fixed.\<close>

fun minLen :: "re \<Rightarrow> nat" where
  "minLen (Lit a) = 1"
| "minLen (Str as) = length as"
| "minLen (Set as) = 1"
| "minLen (NSet as) = 1"
| "minLen (Seq a b) = minLen a + minLen b"
| "minLen (Alt a b) = min (minLen a) (minLen b)"
| "minLen (Plus a) = minLen a"
| "minLen (Grp a) = minLen a"
| "minLen r = 0"

fun groupFree :: "re \<Rightarrow> bool" where
  "groupFree (Seq a b) = (groupFree a \<and> groupFree b)"
| "groupFree (Alt a b) = (groupFree a \<and> groupFree b)"
| "groupFree (Opt a) = groupFree a"
| "groupFree (Star a) = groupFree a"
| "groupFree (Lazy a) = groupFree a"
| "groupFree (Plus a) = groupFree a"
| "groupFree (Grp a) = False"
| "groupFree (Look a) = True"
| "groupFree r = True"

fun groupCount :: "re \<Rightarrow> nat" where
  "groupCount (Seq a b) = groupCount a + groupCount b"
| "groupCount (Grp a) = Suc (groupCount a)"
| "groupCount r = 0"

fun fixedGroups :: "re \<Rightarrow> bool" where
  "fixedGroups (Seq a b) = (fixedGroups a \<and> fixedGroups b)"
| "fixedGroups (Grp a) = fixedGroups a"
| "fixedGroups r = groupFree r"

text \<open>The names rule K1 accepts, spelled out: \<open>p\<close>, \<open>k\<close> and digits to the end, in either
  case.\<close>

fun isPkName :: "string \<Rightarrow> bool" where
  "isPkName (a # b # ds) = (upperChar a = CHR ''P'' \<and> upperChar b = CHR ''K'' \<and> list_all isDigitChar ds)"
| "isPkName s = False"

text \<open>Trees for the examples: a field with its \<open>sql\<close>, \<open>primary_key\<close> and \<open>html\<close>, a view
  with its table and dimensions, and an explore \<open>orders\<close> with one join \<open>users\<close>.\<close>

definition exampleField :: "string option \<Rightarrow> bool option \<Rightarrow> string option \<Rightarrow> LookMLField" where
  "exampleField s pk h =
     \<lparr>field_name = None, field_type = None, field_sql = s, field_primary_key = pk,
      field_html = h, field_label = None, field_description = None\<rparr>"

definition exampleView :: "string option \<Rightarrow> (string \<times> LookMLField) list \<Rightarrow> LookMLView" where
  "exampleView table dims =
     \<lparr>view_name = None, sql_table_name = table, derived_table = None, dimensions = Some dims,
      dimension_groups = None, measures = None, filters = None\<rparr>"

text \<open>An optional text, read as empty when absent.\<close>

definition textOf :: "string option \<Rightarrow> string" where
  "textOf x = (case x of None \<Rightarrow> [] | Some s \<Rightarrow> s)"

definition exampleJoinTree :: "string \<Rightarrow> ParsedLookML" where
  "exampleJoinTree sqlOn =
     \<lparr>views = None,
      explores = Some [(''orders'',
        \<lparr>explore_name = Some ''orders'', explore_view_name = None,
         joins = Some [(''users'',
           \<lparr>join_name = None, sql_on = Some sqlOn, relationship = Some ''many_to_one'',
            view_label = None\<rparr>)]\<rparr>)],
      models = None\<rparr>"

text \<open>A comparison of names for the examples: by code unit, which is how \<open>localeCompare\<close>
  orders lower-case ASCII names. The theorems on sorting take the comparison of the
  configuration as it comes and ask of it only what they use.\<close>

fun codeUnitCompare :: "string \<Rightarrow> string \<Rightarrow> int" where
  "codeUnitCompare [] [] = 0"
| "codeUnitCompare [] (b # bs) = - 1"
| "codeUnitCompare (a # as) [] = 1"
| "codeUnitCompare (a # as) (b # bs) = (if a = b then codeUnitCompare as bs else if a < b then - 1 else 1)"

definition exampleConfig :: config where
  "exampleConfig = \<lparr>indentSize = 4, useSpaces = True, groupFieldsByType = True, sortFields = True, localeCompare = codeUnitCompare\<rparr>"

text \<open>The marker comments of the four standard sections, and a list of lines that holds
  none of them.\<close>

definition sectionMarkers :: "string list" where
  "sectionMarkers =
     [''# ----- Filters -----'', ''# ----- End of Filters -----'',
      ''# ----- Parameters -----'', ''# ----- End of Parameters -----'',
      ''# ----- Dimensions -----'', ''# ----- End of Dimensions -----'',
      ''# ----- Measures -----'', ''# ----- End of Measures -----'']"

definition noMarkers :: "string list \<Rightarrow> bool" where
  "noMarkers lines = list_all (\<lambda>marker. \<not> linePresent lines marker) sectionMarkers"

text \<open>The view of the grouping example: a measure \<open>total_sales\<close>, then the dimensions
  \<open>zebra\<close> and \<open>apple\<close>. The three blocks are the ones \<open>parseViews\<close> builds from the
  document, and \<open>groupedExample\<close> is the text expected up to the closing brace.\<close>

definition docB :: string where
  "docB = joinWith [nl] [''view: v {'', ''measure: total_sales {'', ''}'', ''dimension: zebra {'', ''}'', ''dimension: apple {'', ''}'', ''}'']"

definition exampleMeasure :: LookMLBlock where
  "exampleMeasure =
     \<lparr>block_type = ''measure'', block_name = ''total_sales'', block_startLine = 1, block_endLine = 2,
      content = [''    measure: total_sales {'', ''    }''],
      rawContent = [''measure: total_sales {'', ''}''], indent = 1, comments = [],
      parentBlocks = [(''view'', 0, ''v''), (''measure'', 1, ''total_sales'')]\<rparr>"

definition exampleZebra :: LookMLBlock where
  "exampleZebra =
     \<lparr>block_type = ''dimension'', block_name = ''zebra'', block_startLine = 3, block_endLine = 4,
      content = [''    dimension: zebra {'', ''    }''],
      rawContent = [''dimension: zebra {'', ''}''], indent = 1, comments = [],
      parentBlocks = [(''view'', 0, ''v''), (''dimension'', 1, ''zebra'')]\<rparr>"

definition exampleApple :: LookMLBlock where
  "exampleApple =
     \<lparr>block_type = ''dimension'', block_name = ''apple'', block_startLine = 5, block_endLine = 6,
      content = [''    dimension: apple {'', ''    }''],
      rawContent = [''dimension: apple {'', ''}''], indent = 1, comments = [],
      parentBlocks = [(''view'', 0, ''v''), (''dimension'', 1, ''apple'')]\<rparr>"

definition groupedExample :: "string list" where
  "groupedExample =
     [''view: v {'',
      [],
      ''    # ----- Dimensions -----'',
      [],
      ''    dimension: apple {'',
      ''    }'',
      [],
      ''    dimension: zebra {'',
      ''    }'',
      ''    # ----- End of Dimensions -----'',
      ''    # ----- Measures -----'',
      [],
      ''    measure: total_sales {'',
      ''    }'',
      ''    # ----- End of Measures -----'']"

text \<open>The view of the example behind another view that has a dimension and a measure,
  and the text returned for the two.\<close>

definition docTwo :: string where
  "docTwo = joinWith [nl]
     [''view: a {'',
      ''dimension: id {'',
      ''}'',
      ''measure: count {'',
      ''}'',
      ''}'',
      ''view: v {'',
      ''measure: total_sales {'',
      ''}'',
      ''dimension: zebra {'',
      ''}'',
      ''dimension: apple {'',
      ''}'',
      ''}'']"

definition docTwo1 :: string where
  "docTwo1 = joinWith [nl]
     [''view: a {'',
      [],
      ''    # ----- Dimensions -----'',
      [],
      ''    dimension: id {'',
      ''    }'',
      ''    # ----- End of Dimensions -----'',
      ''    # ----- Measures -----'',
      [],
      ''    measure: count {'',
      ''    }'',
      ''    # ----- End of Measures -----'',
      ''}'',
      ''view: v {'',
      [],
      [],
      ''    dimension: apple {'',
      ''    }'',
      [],
      ''    dimension: zebra {'',
      ''    }'',
      [],
      ''    measure: total_sales {'',
      ''    }'',
      ''}'']"

text \<open>The document of the repository's test of repeated formatting
  (\<open>multiple_format_test\<close>), its text after one pass and its text after two.\<close>

definition docA :: string where
  "docA = joinWith [nl]
     [''view: multiple_format_test {'',
      ''measure: count {'',
      ''type:count'',
      ''}'',
      ''dimension: id {'',
      ''type:number'',
      ''}'',
      ''}'']"

definition docA1 :: string where
  "docA1 = joinWith [nl]
     [''view: multiple_format_test {'',
      [],
      ''    # ----- Dimensions -----'',
      [],
      ''    dimension: id {'',
      ''        type: number'',
      ''    }'',
      ''    # ----- End of Dimensions -----'',
      ''    # ----- Measures -----'',
      [],
      ''    measure: count {'',
      ''        type: count'',
      ''    }'',
      ''    # ----- End of Measures -----'',
      ''}'']"

definition docA2 :: string where
  "docA2 = joinWith [nl]
     [''view: multiple_format_test {'',
      [],
      ''    # ----- Dimensions -----'',
      [],
      ''    dimension: id {'',
      ''        type: number'',
      ''    }'',
      ''    # ----- End of Dimensions -----'',
      ''    # ----- Measures -----'',
      [],
      ''    # ----- End of Dimensions -----'',
      ''    # ----- Measures -----'',
      ''    measure: count {'',
      ''        type: count'',
      ''    }'',
      ''    # ----- End of Measures -----'',
      ''}'']"

text \<open>A view with templating tags in the SQL of its derived table and of a dimension, and
  its text after formatting.\<close>

definition docD :: string where
  "docD = joinWith [nl]
     [''view: v {'',
      ''derived_table: {'',
      ''sql:'',
      ''select a'',
      ''{% if x==1 and y %}'',
      ''from t'',
      ''{% endif %}'',
      '';;'',
      ''}'',
      ''dimension: d {'',
      ''sql:'',
      ''{% if a and b %} ${TABLE}.x'',
      '';;'',
      ''}'',
      ''}'']"

definition docD1 :: string where
  "docD1 = joinWith [nl]
     [''view: v {'',
      ''    derived_table: {'',
      ''    sql:'',
      ''            SELECT a'',
      ''                {% if x == 1 AND y %}'',
      ''            FROM t'',
      ''                {% endif %}'',
      ''        ;;'',
      ''}'',
      [],
      ''    # ----- Dimensions -----'',
      [],
      ''    dimension: d {'',
      ''        sql: '',
      ''                {% if a AND b %} ${TABLE}.x'',
      ''        ;;'',
      ''    }'',
      ''    # ----- End of Dimensions -----'',
      ''}'']"

text \<open>Two states of the matcher over the same text: what is consumed moves from the
  remaining input to the current match.\<close>

definition sameText :: "mstate \<Rightarrow> mstate \<Rightarrow> bool" where
  "sameText st st' = (rev (cur st') @ rest st' = rev (cur st) @ rest st)"


text \<open>The operator characters of the SQL normalizer, and those three of them that the
  first operator pattern does not allow after an operator.\<close>

definition isOperatorChar :: "char \<Rightarrow> bool" where
  "isOperatorChar c = (c = CHR ''<'' \<or> c = CHR ''>'' \<or> c = CHR ''='' \<or> c = CHR ''!'')"

definition isComparisonChar :: "char \<Rightarrow> bool" where
  "isComparisonChar c = (c = CHR ''<'' \<or> c = CHR ''>'' \<or> c = CHR ''='')"


text \<open>The three replacements of \<open>spaceOperators\<close> as scans of the line (proved equal to
  the replacements below): a space after an operator followed by neither \<open>=\<close>, \<open><\<close>, \<open>>\<close>
  nor white space; a space before an operator that follows neither white space nor an
  operator; one space for every run of two or more white-space characters.\<close>

fun spaceAfter :: "string \<Rightarrow> string" where
  "spaceAfter (a # b # s) =
     (if isOperatorChar a \<and> \<not> (isComparisonChar b \<or> isSpaceChar b)
      then a # CHR '' '' # b # spaceAfter s
      else a # spaceAfter (b # s))"
| "spaceAfter s = s"

fun spaceBefore :: "string \<Rightarrow> string" where
  "spaceBefore (a # b # s) =
     (if \<not> (isSpaceChar a \<or> isOperatorChar a) \<and> isOperatorChar b
      then a # CHR '' '' # b # spaceBefore s
      else a # spaceBefore (b # s))"
| "spaceBefore s = s"

function collapseSpaces :: "string \<Rightarrow> string" where
  "collapseSpaces (a # b # s) =
     (if isSpaceChar a \<and> isSpaceChar b
      then CHR '' '' # collapseSpaces (dropWhile isSpaceChar s)
      else a # collapseSpaces (b # s))"
| "collapseSpaces [a] = [a]"
| "collapseSpaces [] = []"
  by pat_completeness auto
termination
  by (relation "measure length") (auto simp: less_Suc_eq_le intro: le_trans[OF length_dropWhile_le])











text \<open>A line without its white space and with its letters in upper case: what the
  normalizer leaves as it is. \<open>skel\<close> gives this text for the matches of a keyword
  pattern (a word boundary, literal text, a run of white space, in sequence), and
  \<open>skelStep\<close> relates two states of the matcher whose matches differ by it.\<close>

definition skeleton :: "string \<Rightarrow> string" where
  "skeleton s = filter (\<lambda>c. \<not> isSpaceChar c) (map upperChar s)"

fun skel :: "re \<Rightarrow> string option" where
  "skel (Str as) = Some (skeleton as)"
| "skel Wb = Some []"
| "skel (Seq a b) = (case skel a of None \<Rightarrow> None
                     | Some x \<Rightarrow> (case skel b of None \<Rightarrow> None | Some y \<Rightarrow> Some (x @ y)))"
| "skel (Plus a) = (if a = Set [Ws] then Some [] else None)"
| "skel r = None"

definition skelStep :: "string \<Rightarrow> mstate \<Rightarrow> mstate \<Rightarrow> bool" where
  "skelStep x st st' = (skeleton (rev (cur st')) = skeleton (rev (cur st)) @ x)"


section \<open>Properties of the matcher\<close>

lemma step_sound:
  "step P st k = Some res \<Longrightarrow>
     \<exists>st'. k st' = Some res \<and> Suc (length (cur st)) \<le> length (cur st') \<and> caps st' = caps st"
  by (cases st; cases "rest st") (auto split: if_splits)

lemma strm_sound:
  "strm ci as st k = Some res \<Longrightarrow>
     \<exists>st'. k st' = Some res \<and> length as + length (cur st) \<le> length (cur st') \<and> caps st' = caps st"
proof (induction as arbitrary: st)
  case Nil
  then show ?case by auto
next
  case (Cons a as)
  from Cons.prems obtain st1 where
    "strm ci as st1 k = Some res" "Suc (length (cur st)) \<le> length (cur st1)" "caps st1 = caps st"
    by (auto dest!: step_sound)
  with Cons.IH[of st1] show ?case by fastforce
qed

lemma startIter_sel [simp]: "cur (startIter st) = cur st" "caps (startIter st) = caps st"
  by (cases st; simp)+

lemma starGreedy_sound:
  assumes f: "\<And>st k res. f st k = Some res \<Longrightarrow>
                \<exists>st'. k st' = Some res \<and> length (cur st) \<le> length (cur st') \<and> Q (caps st) (caps st')"
    and refl: "\<And>c. Q c c" and trans: "\<And>a b c. Q a b \<Longrightarrow> Q b c \<Longrightarrow> Q a c"
  shows "starGreedy f fuel st k = Some res \<Longrightarrow>
           \<exists>st'. k st' = Some res \<and> length (cur st) \<le> length (cur st') \<and> Q (caps st) (caps st')"
proof (induction fuel arbitrary: st)
  case Nil
  then show ?case using refl by auto
next
  case (Cons x fuel)
  show ?case
  proof (cases "f (startIter st) (\<lambda>st1. if moved st1 then starGreedy f fuel st1 k else None)")
    case None
    with Cons.prems show ?thesis using refl by auto
  next
    case (Some r)
    with Cons.prems have "r = res" by simp
    with Some f[of "startIter st"] obtain st1 where
      st1: "(if moved st1 then starGreedy f fuel st1 k else None) = Some res"
        "length (cur st) \<le> length (cur st1)" "Q (caps st) (caps st1)"
      by fastforce
    then have "starGreedy f fuel st1 k = Some res" by (auto split: if_splits)
    from Cons.IH[OF this] st1 show ?thesis using trans by (meson le_trans)
  qed
qed

lemma starLazy_sound:
  assumes f: "\<And>st k res. f st k = Some res \<Longrightarrow>
                \<exists>st'. k st' = Some res \<and> length (cur st) \<le> length (cur st') \<and> Q (caps st) (caps st')"
    and refl: "\<And>c. Q c c" and trans: "\<And>a b c. Q a b \<Longrightarrow> Q b c \<Longrightarrow> Q a c"
  shows "starLazy f fuel st k = Some res \<Longrightarrow>
           \<exists>st'. k st' = Some res \<and> length (cur st) \<le> length (cur st') \<and> Q (caps st) (caps st')"
proof (induction fuel arbitrary: st)
  case Nil
  then show ?case using refl by auto
next
  case (Cons x fuel)
  show ?case
  proof (cases "k st")
    case (Some r)
    with Cons.prems show ?thesis using refl by auto
  next
    case None
    with Cons.prems f[of "startIter st"] obtain st1 where
      st1: "(if moved st1 then starLazy f fuel st1 k else None) = Some res"
        "length (cur st) \<le> length (cur st1)" "Q (caps st) (caps st1)"
      by fastforce
    then have "starLazy f fuel st1 k = Some res" by (auto split: if_splits)
    from Cons.IH[OF this] st1 show ?thesis using trans by (meson le_trans)
  qed
qed

lemma openGrp_sel [simp]: "cur (openGrp st) = []" "caps (openGrp st) = caps st"
  by (cases st; simp)+

lemma closeGrp_sel [simp]:
  "cur (closeGrp st0 st) = cur st @ cur st0" "caps (closeGrp st0 st) = caps st @ [rev (cur st)]"
  by (cases st0; cases st; simp)+

lemma groupFree_fixed: "groupFree r \<Longrightarrow> fixedGroups r \<and> groupCount r = 0"
  by (induction r) auto

lemma m_sound:
  "m ci r st k = Some res \<Longrightarrow>
     \<exists>st'. k st' = Some res \<and> minLen r + length (cur st) \<le> length (cur st')
           \<and> (fixedGroups r \<longrightarrow> length (caps st') = length (caps st) + groupCount r)"
proof (induction r arbitrary: st k res)
  case (Lit a)
  then show ?case by (auto dest!: step_sound)
next
  case (Str as)
  then show ?case by (auto dest!: strm_sound)
next
  case (Set as)
  then show ?case by (auto dest!: step_sound)
next
  case (NSet as)
  then show ?case by (auto dest!: step_sound)
next
  case (Seq a b)
  from Seq.prems Seq.IH(1)[of st "\<lambda>st1. m ci b st1 k"] obtain st1 where
    st1: "m ci b st1 k = Some res" "minLen a + length (cur st) \<le> length (cur st1)"
      "fixedGroups a \<longrightarrow> length (caps st1) = length (caps st) + groupCount a"
    by auto
  from Seq.IH(2)[OF st1(1)] obtain st' where
    "k st' = Some res" "minLen b + length (cur st1) \<le> length (cur st')"
      "fixedGroups b \<longrightarrow> length (caps st') = length (caps st1) + groupCount b"
    by auto
  with st1 show ?case by (intro exI[of _ st']) auto
next
  case (Alt a b)
  show ?case
  proof (cases "m ci a st k")
    case None
    with Alt.prems Alt.IH(2)[of st k] show ?thesis
      by (fastforce dest: groupFree_fixed)
  next
    case (Some r)
    with Alt.prems Alt.IH(1)[of st k] show ?thesis
      by (fastforce dest: groupFree_fixed)
  qed
next
  case (Opt a)
  show ?case
  proof (cases "m ci a st k")
    case None
    with Opt.prems show ?thesis by auto
  next
    case (Some r)
    with Opt.prems Opt.IH[of st k] show ?thesis
      by (fastforce dest: groupFree_fixed)
  qed
next
  case (Star a)
  have "\<exists>st'. k st' = Some res \<and> length (cur st) \<le> length (cur st')
          \<and> (groupFree a \<longrightarrow> length (caps st') = length (caps st))"
  proof (rule starGreedy_sound[where f = "m ci a" and Q = "\<lambda>c c'. groupFree a \<longrightarrow> length c' = length c"])
    show "starGreedy (m ci a) (rest st) st k = Some res" using Star.prems by simp
  next
    fix st0 k0 res0 assume "m ci a st0 k0 = Some res0"
    from Star.IH[OF this]
    show "\<exists>st'. k0 st' = Some res0 \<and> length (cur st0) \<le> length (cur st')
            \<and> (groupFree a \<longrightarrow> length (caps st') = length (caps st0))"
      by (fastforce dest: groupFree_fixed)
  qed auto
  then show ?case by auto
next
  case (Lazy a)
  have "\<exists>st'. k st' = Some res \<and> length (cur st) \<le> length (cur st')
          \<and> (groupFree a \<longrightarrow> length (caps st') = length (caps st))"
  proof (rule starLazy_sound[where f = "m ci a" and Q = "\<lambda>c c'. groupFree a \<longrightarrow> length c' = length c"])
    show "starLazy (m ci a) (rest st) st k = Some res" using Lazy.prems by simp
  next
    fix st0 k0 res0 assume "m ci a st0 k0 = Some res0"
    from Lazy.IH[OF this]
    show "\<exists>st'. k0 st' = Some res0 \<and> length (cur st0) \<le> length (cur st')
            \<and> (groupFree a \<longrightarrow> length (caps st') = length (caps st0))"
      by (fastforce dest: groupFree_fixed)
  qed auto
  then show ?case by auto
next
  case (Plus a)
  from Plus.prems Plus.IH[of st "\<lambda>st1. starGreedy (m ci a) (rest st1) st1 k"] obtain st1 where
    st1: "starGreedy (m ci a) (rest st1) st1 k = Some res" "minLen a + length (cur st) \<le> length (cur st1)"
      "fixedGroups a \<longrightarrow> length (caps st1) = length (caps st) + groupCount a"
    by auto
  have "\<exists>st'. k st' = Some res \<and> length (cur st1) \<le> length (cur st')
          \<and> (groupFree a \<longrightarrow> length (caps st') = length (caps st1))"
  proof (rule starGreedy_sound[where f = "m ci a" and Q = "\<lambda>c c'. groupFree a \<longrightarrow> length c' = length c"])
    show "starGreedy (m ci a) (rest st1) st1 k = Some res" by (rule st1(1))
  next
    fix st0 k0 res0 assume "m ci a st0 k0 = Some res0"
    from Plus.IH[OF this]
    show "\<exists>st'. k0 st' = Some res0 \<and> length (cur st0) \<le> length (cur st')
            \<and> (groupFree a \<longrightarrow> length (caps st') = length (caps st0))"
      by (fastforce dest: groupFree_fixed)
  qed auto
  with st1 show ?case by (fastforce dest: groupFree_fixed)
next
  case (Grp a)
  from Grp.prems Grp.IH[of "openGrp st" "\<lambda>st1. k (closeGrp st st1)"] obtain st1 where
    "k (closeGrp st st1) = Some res" "minLen a \<le> length (cur st1)"
      "fixedGroups a \<longrightarrow> length (caps st1) = length (caps st) + groupCount a"
    by auto
  then show ?case by (intro exI[of _ "closeGrp st st1"]) auto
next
  case (Look a)
  then show ?case by (auto split: option.splits)
next
  case Bol
  then show ?case by (auto split: if_splits)
next
  case Eol
  then show ?case by (auto split: if_splits)
next
  case Wb
  then show ?case by (auto split: if_splits)
qed

lemma exec_sound:
  "exec ci r p s = Some st \<Longrightarrow>
     minLen r \<le> length (cur st) \<and> (fixedGroups r \<longrightarrow> length (caps st) = groupCount r)"
  unfolding exec_def by (drule m_sound) auto

lemma search_sound:
  "search ci r p sk s = Some (skipped, st) \<Longrightarrow>
     minLen r \<le> length (cur st) \<and> (fixedGroups r \<longrightarrow> length (caps st) = groupCount r)"
  by (induction s arbitrary: p sk) (auto split: option.splits dest: exec_sound)

lemma execLoop_groups:
  "fixedGroups r \<Longrightarrow> g \<in> set (execLoop fuel ci r p s) \<Longrightarrow> length (snd g) = groupCount r"
proof (induction fuel arbitrary: p s)
  case Nil
  then show ?case by simp
next
  case (Cons x fuel)
  show ?case
  proof (cases "search ci r p [] s")
    case None
    with Cons.prems show ?thesis by simp
  next
    case (Some a)
    obtain sk st where a: "a = (sk, st)" by (cases a)
    from Some a have "length (caps st) = groupCount r"
      using Cons.prems(1) search_sound by blast
    with Cons Some a show ?thesis
      by (auto simp: groups_def split: if_splits)
  qed
qed

lemma execAll_groups:
  "fixedGroups r \<Longrightarrow> g \<in> set (execAll ci r s) \<Longrightarrow> length (snd g) = groupCount r"
  unfolding execAll_def by (rule execLoop_groups)

section \<open>The rule engine\<close>

lemma applyRulesIn_Nil: "applyRulesIn t l [] = []"
  by (simp add: applyRulesIn_def)

lemma applyRulesIn_Cons:
  "applyRulesIn t l (x # xs) = runRule (getProperty t x) l @ applyRulesIn t l xs"
  by (cases "getProperty t x") (simp_all add: applyRulesIn_def runRule_def callCheck_def)

lemma applyRulesIn_concat:
  "applyRulesIn t l ids = concat (map (\<lambda>x. runRule (getProperty t x) l) ids)"
  by (induction ids) (simp_all add: applyRulesIn_Nil applyRulesIn_Cons)

lemma runRule_known:
  "runRule (getProperty t x) l =
     (case map_of t x of
        None \<Rightarrow> []
      | Some r \<Rightarrow> (case rule_check r l of Inl e \<Rightarrow> [] | Inr vs \<Rightarrow> vs))"
  by (simp add: runRule_def getProperty_def callCheck_def split: option.splits)

lemma map_of_ALL_RULES:
  "map_of ALL_RULES x =
     (if x = ''k1'' then Some (snd (ALL_RULES ! 0))
      else if x = ''e1'' then Some (snd (ALL_RULES ! 1))
      else if x = ''f1'' then Some (snd (ALL_RULES ! 2)) else None)"
  by (simp add: ALL_RULES_def)

lemma runRule_ALL_RULES:
  "runRule (getProperty ALL_RULES x) l =
     (if x = ''k1'' then checkPrimaryKeys l
      else if x = ''e1'' then checkJoinReferences l
      else if x = ''f1'' then checkCrossViewReferences l else [])"
  by (simp add: runRule_known map_of_ALL_RULES) (simp add: ALL_RULES_def)

lemma k1_ruleId: "v \<in> set (checkPrimaryKeys l) \<Longrightarrow> ruleId v = ''k1''"
  by (auto simp: checkPrimaryKeys_def checkPrimaryKeysView_def missingPkViolation_def
        pkNamingViolation_def split: option.splits if_splits)

lemma e1_ruleId: "v \<in> set (checkJoinReferences l) \<Longrightarrow> ruleId v = ''e1''"
  by (auto simp: checkJoinReferences_def checkJoinReferencesExplore_def checkJoin_def
        joinViolation_def split: option.splits if_splits)

lemma f1_ruleId: "v \<in> set (checkCrossViewReferences l) \<Longrightarrow> ruleId v = ''f1''"
  by (auto simp: checkCrossViewReferences_def checkCrossViewReferencesView_def
        checkFieldsForCrossReferences_def checkField_def sqlRefViolation_def htmlRefViolation_def
        split: option.splits if_splits)

lemma runRule_ruleId: "v \<in> set (runRule (getProperty ALL_RULES x) l) \<Longrightarrow> ruleId v = x"
  by (auto simp: runRule_ALL_RULES k1_ruleId e1_ruleId f1_ruleId split: if_splits)

lemma filter_runRule:
  "filter (\<lambda>v. ruleId v = y) (runRule (getProperty ALL_RULES x) l) =
     (if x = y then runRule (getProperty ALL_RULES x) l else [])"
  by (auto simp: filter_empty_conv filter_id_conv dest: runRule_ruleId)

text \<open>
  Claim C8. The violations the linter reports are those of \<open>applyRules\<close> on the enabled
  rule IDs that are not disabled. For every table of rules, they are the violations of
  the rules of the table named by these IDs, one after the other: an ID the table does
  not know adds nothing, a rule whose check throws adds nothing, and neither stops the
  rules that follow. For the table of the source this is K1, E1 and F1; an ID such as
  \<open>constructor\<close>, which the table object inherits, ends in a caught \<open>TypeError\<close>.
\<close>

theorem applyRules_selection:
  "applyRulesIn table lookml (activeRules enabledRules disabledRules)
     = concat (map (\<lambda>rid. case map_of table rid of
                            None \<Rightarrow> []
                          | Some r \<Rightarrow> (case rule_check r lookml of Inl e \<Rightarrow> [] | Inr vs \<Rightarrow> vs))
                 (filter (\<lambda>rid. rid \<notin> set disabledRules) enabledRules))
   \<and> applyRules lookml (activeRules enabledRules disabledRules)
     = concat (map (\<lambda>rid. if rid = ''k1'' then checkPrimaryKeys lookml
                          else if rid = ''e1'' then checkJoinReferences lookml
                          else if rid = ''f1'' then checkCrossViewReferences lookml
                          else [])
                 (filter (\<lambda>rid. rid \<notin> set disabledRules) enabledRules))
   \<and> callCheck (getProperty ALL_RULES ''constructor'') lookml = Inl TypeError
   \<and> applyRules lookml [''k1'', ''constructor'', ''no_such_rule'', ''f1'']
     = checkPrimaryKeys lookml @ checkCrossViewReferences lookml"
proof (intro conjI)
  show "applyRulesIn table lookml (activeRules enabledRules disabledRules)
     = concat (map (\<lambda>rid. case map_of table rid of
                            None \<Rightarrow> []
                          | Some r \<Rightarrow> (case rule_check r lookml of Inl e \<Rightarrow> [] | Inr vs \<Rightarrow> vs))
                 (filter (\<lambda>rid. rid \<notin> set disabledRules) enabledRules))"
    by (simp add: applyRulesIn_concat runRule_known activeRules_def)
  show "applyRules lookml (activeRules enabledRules disabledRules)
     = concat (map (\<lambda>rid. if rid = ''k1'' then checkPrimaryKeys lookml
                          else if rid = ''e1'' then checkJoinReferences lookml
                          else if rid = ''f1'' then checkCrossViewReferences lookml
                          else [])
                 (filter (\<lambda>rid. rid \<notin> set disabledRules) enabledRules))"
    by (simp add: applyRules_def applyRulesIn_concat runRule_ALL_RULES activeRules_def)
  show "callCheck (getProperty ALL_RULES ''constructor'') lookml = Inl TypeError"
    by (simp add: callCheck_def getProperty_def inheritedKeys_def map_of_ALL_RULES)
  show "applyRules lookml [''k1'', ''constructor'', ''no_such_rule'', ''f1'']
     = checkPrimaryKeys lookml @ checkCrossViewReferences lookml"
    by (simp add: applyRules_def applyRulesIn_concat runRule_ALL_RULES)
qed

text \<open>
  Claim C10. \<open>applyRules\<close> does not remove duplicates from the list of rule IDs: the
  violations of a rule appear in the result once for every occurrence of its ID in the
  list, in the order of the list; the violations of K1, E1 and F1 are what their check
  functions return on the tree.
\<close>

theorem applyRules_keeps_duplicates:
  "filter (\<lambda>v. ruleId v = rid) (applyRules lookml enabledRuleIds)
     = concat (replicate (count_list enabledRuleIds rid) (applyRules lookml [rid]))
   \<and> applyRules lookml [''k1''] = checkPrimaryKeys lookml
   \<and> applyRules lookml [''e1''] = checkJoinReferences lookml
   \<and> applyRules lookml [''f1''] = checkCrossViewReferences lookml"
proof -
  have "filter (\<lambda>v. ruleId v = rid) (applyRulesIn ALL_RULES lookml ids)
          = concat (replicate (count_list ids rid) (runRule (getProperty ALL_RULES rid) lookml))" for ids
    by (induction ids) (simp_all add: applyRulesIn_Nil applyRulesIn_Cons filter_runRule)
  then show ?thesis
    by (simp add: applyRules_def applyRulesIn_Cons applyRulesIn_Nil runRule_ALL_RULES)
qed

section \<open>Rule K1\<close>

lemma upper_p: "upperChar CHR ''p'' = CHR ''P''" by code_simp

lemma upper_k: "upperChar CHR ''k'' = CHR ''K''" by code_simp

lemma digits_to_end:
  "(starGreedy (m ci (Set [Dg])) ds (MState cs cu p ds mv) (\<lambda>st. m ci Eol st Some) \<noteq> None)
     = list_all isDigitChar ds"
proof (induction ds arbitrary: cs cu p mv)
  case Nil
  then show ?case by simp
next
  case (Cons d ds)
  show ?case
    using Cons.IH[of cs "d # cu" "Some d" True]
    by (auto simp: inClass_def split: option.splits)
qed

lemma bol_fails: "exec ci (Seq Bol r) (Some c) s = None"
  by (simp add: exec_def)

lemma search_bol_fails: "search ci (Seq Bol r) (Some c) sk s = None"
  by (induction s arbitrary: c sk) (simp_all add: bol_fails)

lemma jsTest_bol: "jsTest ci (Seq Bol r) s = (exec ci (Seq Bol r) None s \<noteq> None)"
  by (cases s) (auto simp: jsTest_def search_bol_fails split: option.splits)

lemma pkPattern_isPkName: "jsTest True pkPattern s = isPkName s"
proof -
  have "(exec True pkPattern None s \<noteq> None) = isPkName s"
  proof (cases s)
    case Nil
    then show ?thesis by (simp add: exec_def pkPattern_def)
  next
    case (Cons a s1)
    show ?thesis
    proof (cases s1)
      case Nil
      with Cons show ?thesis by (simp add: exec_def pkPattern_def)
    next
      case (Cons b ds)
      with \<open>s = a # s1\<close> show ?thesis
        using digits_to_end[of True ds "[]" "[b, a]" "Some b" True]
        by (simp add: exec_def pkPattern_def litOk_def upper_p upper_k)
    qed
  qed
  then show ?thesis by (simp add: pkPattern_def jsTest_bol)
qed

text \<open>
  Claim C5. Rule K1 goes through the views one by one. A view with no derived table and
  no table name (an absent or an empty \<open>sql_table_name\<close>, the two the source's test takes
  for false) gives no violation. Any other view gives exactly one missing-primary-key
  violation if none of its dimensions has \<open>primary_key = true\<close>, and otherwise exactly
  one naming violation for each of those dimensions whose name is not \<open>pk\<close> followed by
  digits only, in either case.
\<close>

theorem k1_violations:
  "checkPrimaryKeys lookml = concat (map checkPrimaryKeysView (orEmpty (views lookml)))
   \<and> checkPrimaryKeysView (viewName, view) =
       (if derived_table view = None \<and> (sql_table_name view = None \<or> sql_table_name view = Some [])
        then []
        else if pkDimensions view = [] then [missingPkViolation viewName]
        else map (\<lambda>(n, dim). pkNamingViolation viewName n)
               (filter (\<lambda>(n, dim). \<not> isPkName n) (pkDimensions view)))
   \<and> pkDimensions view
       = filter (\<lambda>(n, dim). field_primary_key dim = Some True) (orEmpty (dimensions view))"
proof -
  have t: "hasTable view
             = (\<not> (derived_table view = None \<and> (sql_table_name view = None \<or> sql_table_name view = Some [])))"
    by (cases "sql_table_name view") (auto simp: hasTable_def)
  have "checkPrimaryKeys lookml = concat (map checkPrimaryKeysView (orEmpty (views lookml)))"
    by (cases "views lookml") (simp_all add: checkPrimaryKeys_def)
  moreover have "checkPrimaryKeysView (viewName, view) =
       (if derived_table view = None \<and> (sql_table_name view = None \<or> sql_table_name view = Some [])
        then []
        else if pkDimensions view = [] then [missingPkViolation viewName]
        else map (\<lambda>(n, dim). pkNamingViolation viewName n)
               (filter (\<lambda>(n, dim). \<not> isPkName n) (pkDimensions view)))"
    by (simp add: checkPrimaryKeysView_def t pkPattern_isPkName)
  ultimately show ?thesis by (simp add: pkDimensions_def)
qed

lemma pk_names: "\<not> isPkName ''user_id''" "isPkName ''pk''"
  by code_simp+

text \<open>The examples of claim C5: with a table, a primary key named \<open>user_id\<close> gives the one
  naming violation, one named \<open>pk\<close> gives none, and no primary key gives the one missing-key
  violation; without a table there is none.\<close>

theorem k1_examples:
  "checkPrimaryKeysView (''users'', exampleView (Some ''public.users'') [(''user_id'', exampleField None (Some True) None)])
     = [pkNamingViolation ''users'' ''user_id'']
   \<and> checkPrimaryKeysView (''users'', exampleView (Some ''public.users'') [(''pk'', exampleField None (Some True) None)])
     = []
   \<and> checkPrimaryKeysView (''users'', exampleView (Some ''public.users'') [(''name'', exampleField None None None)])
     = [missingPkViolation ''users'']
   \<and> checkPrimaryKeysView (''users'', exampleView None [(''user_id'', exampleField None (Some True) None)])
     = []"
  using k1_violations[of "\<lparr>views = None, explores = None, models = None\<rparr>" "''users''"
          "exampleView (Some ''public.users'') [(''user_id'', exampleField None (Some True) None)]"]
        k1_violations[of "\<lparr>views = None, explores = None, models = None\<rparr>" "''users''"
          "exampleView (Some ''public.users'') [(''pk'', exampleField None (Some True) None)]"]
        k1_violations[of "\<lparr>views = None, explores = None, models = None\<rparr>" "''users''"
          "exampleView (Some ''public.users'') [(''name'', exampleField None None None)]"]
        k1_violations[of "\<lparr>views = None, explores = None, models = None\<rparr>" "''users''"
          "exampleView None [(''user_id'', exampleField None (Some True) None)]"]
  by (simp add: exampleView_def exampleField_def pk_names pkDimensions_def del: isPkName.simps)

section \<open>Rule F1\<close>

lemma execAll_empty: "execAll ci r [] = []"
  by (simp add: execAll_def)

lemma extract_empty: "extractCrossViewReferences [] v = []"
  by (simp add: extractCrossViewReferences_def execAll_empty)

lemma crossRefPattern_groups: "fixedGroups crossRefPattern \<and> groupCount crossRefPattern = 2"
  by (simp add: crossRefPattern_def ident_def)

lemma crossRef_two:
  "length gs = 2 \<Longrightarrow>
     crossRef v (whole, gs)
       = (if gs ! 0 \<noteq> v \<and> gs ! 0 \<noteq> ''TABLE'' then [gs ! 0 @ ''.'' @ gs ! 1] else [])"
  by (cases gs; cases "tl gs") auto

lemma concat_map_filter:
  "(\<And>x. x \<in> set xs \<Longrightarrow> f x = (if P x then [g x] else [])) \<Longrightarrow>
     concat (map f xs) = map g (filter P xs)"
  by (induction xs) auto

lemma extract_as_filter:
  "extractCrossViewReferences txt v
     = map (\<lambda>(whole, gs). gs ! 0 @ ''.'' @ gs ! 1)
         (filter (\<lambda>(whole, gs). gs ! 0 \<noteq> v \<and> gs ! 0 \<noteq> ''TABLE'')
            (execAll False crossRefPattern txt))"
  unfolding extractCrossViewReferences_def
proof (rule concat_map_filter)
  fix x assume "x \<in> set (execAll False crossRefPattern txt)"
  then have "length (snd x) = 2"
    using execAll_groups[of crossRefPattern x False "txt"] crossRefPattern_groups by simp
  then show "crossRef v x = (if case x of (whole, gs) \<Rightarrow> gs ! 0 \<noteq> v \<and> gs ! 0 \<noteq> ''TABLE''
                              then [case x of (whole, gs) \<Rightarrow> gs ! 0 @ ''.'' @ gs ! 1] else [])"
    by (cases x) (simp add: crossRef_two del: crossRef.simps)
qed

lemma checkField_eq:
  "checkField viewName fieldType (fieldName, field)
     = map (sqlRefViolation fieldType fieldName viewName)
         (extractCrossViewReferences (textOf (field_sql field)) viewName)
     @ map (htmlRefViolation fieldType fieldName viewName)
         (extractCrossViewReferences (textOf (field_html field)) viewName)"
  by (simp add: checkField_def textOf_def extract_empty split: option.splits)

lemma messages_differ:
  "message (sqlRefViolation fieldType fieldName viewName ref)
     \<noteq> message (htmlRefViolation fieldType fieldName viewName ref')"
  by (simp add: sqlRefViolation_def htmlRefViolation_def)

text \<open>
  Claim C7. Rule F1 looks at the views that have a derived table or a table name, and in
  each at its dimensions, dimension groups, measures and filters, in this order. For a
  field it reports one violation for every match of \<open>${view.field}\<close> in the \<open>sql\<close> text,
  then one for every match in the \<open>html\<close> text, whose view part is neither the name of the
  enclosing view nor \<open>TABLE\<close>; the message of a violation found in \<open>sql\<close> differs from
  that of one found in \<open>html\<close>.
\<close>

theorem f1_violations:
  "checkCrossViewReferences lookml = concat (map checkCrossViewReferencesView (orEmpty (views lookml)))
   \<and> checkCrossViewReferencesView (viewName, view) =
       (if derived_table view = None \<and> (sql_table_name view = None \<or> sql_table_name view = Some [])
        then []
        else concat (map (checkField viewName ''dimension'') (orEmpty (dimensions view)))
           @ concat (map (checkField viewName ''dimension_group'') (orEmpty (dimension_groups view)))
           @ concat (map (checkField viewName ''measure'') (orEmpty (measures view)))
           @ concat (map (checkField viewName ''filter'') (orEmpty (filters view))))
   \<and> checkField viewName fieldType (fieldName, field)
       = map (sqlRefViolation fieldType fieldName viewName)
           (extractCrossViewReferences (textOf (field_sql field)) viewName)
       @ map (htmlRefViolation fieldType fieldName viewName)
           (extractCrossViewReferences (textOf (field_html field)) viewName)
   \<and> extractCrossViewReferences txt viewName
       = map (\<lambda>(whole, gs). gs ! 0 @ ''.'' @ gs ! 1)
           (filter (\<lambda>(whole, gs). gs ! 0 \<noteq> viewName \<and> gs ! 0 \<noteq> ''TABLE'')
              (execAll False crossRefPattern txt))
   \<and> message (sqlRefViolation fieldType fieldName viewName ref)
       \<noteq> message (htmlRefViolation fieldType fieldName viewName ref')"
proof -
  have t: "hasTable view
             = (\<not> (derived_table view = None \<and> (sql_table_name view = None \<or> sql_table_name view = Some [])))"
    by (cases "sql_table_name view") (auto simp: hasTable_def)
  have "checkCrossViewReferences lookml = concat (map checkCrossViewReferencesView (orEmpty (views lookml)))"
    by (cases "views lookml") (simp_all add: checkCrossViewReferences_def)
  moreover have "checkCrossViewReferencesView (viewName, view) =
       (if derived_table view = None \<and> (sql_table_name view = None \<or> sql_table_name view = Some [])
        then []
        else concat (map (checkField viewName ''dimension'') (orEmpty (dimensions view)))
           @ concat (map (checkField viewName ''dimension_group'') (orEmpty (dimension_groups view)))
           @ concat (map (checkField viewName ''measure'') (orEmpty (measures view)))
           @ concat (map (checkField viewName ''filter'') (orEmpty (filters view))))"
    by (simp add: checkCrossViewReferencesView_def t checkFieldsForCrossReferences_def)
  ultimately show ?thesis
    using checkField_eq extract_as_filter messages_differ by simp
qed

lemma f1_refs:
  "extractCrossViewReferences ''${users.name}'' ''orders'' = [''users.name'']"
  "extractCrossViewReferences ''${TABLE}.id'' ''orders'' = []"
  "extractCrossViewReferences ''${orders.id} ${users.id} ${TABLE}.x'' ''orders'' = [''users.id'']"
  by code_simp+

text \<open>The examples of claim C7: in view \<open>orders\<close>, \<open>sql: ${users.name}\<close> gives one violation,
  \<open>sql: ${TABLE}.id\<close> gives none, and the reference in \<open>html\<close> gives the HTML violation.\<close>

theorem f1_examples:
  "checkCrossViewReferencesView
     (''orders'', exampleView (Some ''public.orders'') [(''user_name'', exampleField (Some ''${users.name}'') None None)])
     = [sqlRefViolation ''dimension'' ''user_name'' ''orders'' ''users.name'']
   \<and> checkCrossViewReferencesView
     (''orders'', exampleView (Some ''public.orders'') [(''id'', exampleField (Some ''${TABLE}.id'') None None)])
     = []
   \<and> checkCrossViewReferencesView
     (''orders'', exampleView (Some ''public.orders'') [(''link'', exampleField None None (Some ''${users.name}''))])
     = [htmlRefViolation ''dimension'' ''link'' ''orders'' ''users.name'']"
proof -
  let ?l = "\<lparr>views = None, explores = None, models = None\<rparr>"
  have v: "checkCrossViewReferencesView (''orders'', exampleView (Some ''public.orders'') [(n, f)])
             = checkField ''orders'' ''dimension'' (n, f)" for n f
    using f1_violations[of ?l "''orders''" "exampleView (Some ''public.orders'') [(n, f)]"]
    by (simp add: exampleView_def)
  have c: "checkField ''orders'' ''dimension'' (n, f)
       = map (sqlRefViolation ''dimension'' n ''orders'')
           (extractCrossViewReferences (textOf (field_sql f)) ''orders'')
       @ map (htmlRefViolation ''dimension'' n ''orders'')
           (extractCrossViewReferences (textOf (field_html f)) ''orders'')" for n f
    using f1_violations[of ?l "''orders''" _ "''dimension''" n f] by blast
  show ?thesis
    by (simp add: v c exampleField_def textOf_def f1_refs extract_empty)
qed

section \<open>Rule E1\<close>

text \<open>The two examples of claim C6 hold: two violations, and none.\<close>

lemma e1_examples:
  "checkJoinReferences (exampleJoinTree ''orders.user_id = users.id'')
     = [joinViolation ''orders'' ''users'' ''orders.user_id '', joinViolation ''orders'' ''users'' ''users.id'']"
  "checkJoinReferences (exampleJoinTree ''${orders.user_id} = safe.users.id'') = []"
  by code_simp+

text \<open>
  Claim C6 fails where a space follows a reference. The class after the dot in the
  pattern of the source holds the space, so a match runs on over the words that follow:
  in \<open>a.b AND c.d\<close> the two references are one match and give one violation, and in a
  condition of two comparisons the four references give three.
\<close>

theorem e1_merges_references:
  "checkJoinReferences (exampleJoinTree ''a.b AND c.d'')
     = [joinViolation ''orders'' ''users'' ''a.b AND c.d'']
   \<and> checkJoinReferences (exampleJoinTree ''orders.user_id = users.id AND orders.status = users.status'')
     = [joinViolation ''orders'' ''users'' ''orders.user_id '',
        joinViolation ''orders'' ''users'' ''users.id AND orders.status '',
        joinViolation ''orders'' ''users'' ''users.status'']"
  by code_simp

section \<open>The fallback parser and the empty document\<close>

lemma extract_empty_all:
  "extractViews [] = []" "extractExplores [] = []" "extractModels [] = []"
  by (simp_all add: extractViews_def extractExplores_def extractModels_def execAll_empty)

lemma split_empty: "jsSplit r [] = [[]]"
  by (simp add: jsSplit_def)

lemma trim_empty: "trim [] = []"
  by (simp add: trim_def)

lemma formatLines_blank: "formatLines cfg [[]] = [[]]"
  by (simp add: formatLines_def formatLine_def trim_empty emit_def)

lemma parseViews_blank: "parseViews cfg [[]] = ([], [])"
  by (simp add: parseViews_def parseLine_def trim_empty initialPState_def inView_def)

lemma format_empty: "format cfg [] = []"
  by (simp add: format_def Let_def split_empty formatLines_blank formatWithAdvancedOptions_def parseViews_blank)

lemma applyRules_empty_tree:
  "applyRules \<lparr>views = Some [], explores = Some [], models = Some []\<rparr> ids = []"
  by (induction ids)
     (simp_all add: applyRules_def applyRulesIn_Nil applyRulesIn_Cons runRule_ALL_RULES
        checkPrimaryKeys_def checkJoinReferences_def checkCrossViewReferences_def)

text \<open>An unterminated view with an unterminated dimension: the view is found with its
  table, the dimension, whose pattern asks for a closing brace on a later line, is not.\<close>

lemma parse_unterminated:
  "parseLookMLSync (joinWith [nl] [''view: v {'', ''  sql_table_name: t'', ''  dimension: d {'', ''    sql: ${TABLE}.x''])
     = Inr \<lparr>views = Some [(''v'',
               \<lparr>view_name = Some ''v'', sql_table_name = Some ''t'', derived_table = None,
                dimensions = Some [], dimension_groups = Some [], measures = Some [],
                filters = Some []\<rparr>)],
            explores = Some [], models = Some []\<rparr>"
  by code_simp

text \<open>
  Claim C9. For every input, \<open>parseLookMLSync\<close> returns a tree (it throws nothing) whose
  \<open>views\<close>, \<open>explores\<close> and \<open>models\<close> are all present. On the empty text the three are
  empty, the formatter returns no edit under every configuration, and the rules, run on
  the tree of the fallback parser, return no violation.
\<close>

theorem parseLookMLSync_total:
  "(\<exists>t. parseLookMLSync s = Inr t \<and> views t \<noteq> None \<and> explores t \<noteq> None \<and> models t \<noteq> None)
   \<and> parseLookMLSync [] = Inr \<lparr>views = Some [], explores = Some [], models = Some []\<rparr>
   \<and> format cfg [] = []
   \<and> (case parseLookMLSync [] of Inr t \<Rightarrow> applyRules t enabledRuleIds | Inl e \<Rightarrow> []) = []"
  by (simp add: parseLookMLSync_def extract_empty_all format_empty applyRules_empty_tree)

section \<open>The formatter: grouping and sorting\<close>

text \<open>Lines already written stay in front of what a field adds.\<close>

lemma fieldLoop_append:
  "fieldLoop cfg field lines n b (out1 @ out2) = out1 @ fieldLoop cfg field lines n b out2"
  by (induction lines arbitrary: n b out2) (simp_all add: Let_def)

lemma addFormattedFieldContent_append:
  "addFormattedFieldContent cfg (out1 @ out2) field = out1 @ addFormattedFieldContent cfg out2 field"
  by (simp add: addFormattedFieldContent_def Let_def fieldLoop_append)

lemma addField_append: "addField cfg i (out1 @ out2) field = out1 @ addField cfg i out2 field"
  by (simp add: addField_def addFormattedFieldContent_append)

lemma addField_out: "addField cfg i output field = output @ addField cfg i [] field"
  using addField_append[of cfg i "output" "[]" "field"] by simp


text \<open>The test for a marker that is already there, line by line; indentation does not
  count in it.\<close>

lemma linePresent_append: "linePresent (xs @ ys) mk = (linePresent xs mk \<or> linePresent ys mk)"
  by (simp add: linePresent_def)

lemma linePresent_Nil: "linePresent [] mk = False"
  by (simp add: linePresent_def)

lemma linePresent_Cons: "linePresent (x # xs) mk = (trim x = mk \<or> linePresent xs mk)"
  by (simp add: linePresent_def)

lemma isSpace_indentString: "list_all isSpaceChar (indentString cfg)"
  by (simp add: indentString_def repeat_def isSpaceChar_def list_all_iff)

lemma isSpace_ind: "list_all isSpaceChar (ind cfg n)"
  using isSpace_indentString[of cfg]
  by (induction n) (simp_all add: ind_def repeat_def)

lemma dropWhile_all: "list_all P xs \<Longrightarrow> dropWhile P (xs @ ys) = dropWhile P ys"
  by (induction xs) auto

lemma trim_ind: "trim (ind cfg n @ s) = trim s"
  by (simp add: trim_def dropWhile_all isSpace_ind)

lemma trim_markers:
  "trim ''# ----- Dimensions -----'' = ''# ----- Dimensions -----''"
  "trim ''# ----- End of Dimensions -----'' = ''# ----- End of Dimensions -----''"
  "trim ''# ----- Measures -----'' = ''# ----- Measures -----''"
  "trim ''# ----- End of Measures -----'' = ''# ----- End of Measures -----''"
  by code_simp+

lemma trim_blank: "trim [] = []"
  by (simp add: trim_def)


text \<open>
  Where no line written so far is a marker: with grouping and sorting enabled, a view
  whose fields are the measure \<open>total_sales\<close> and the dimensions \<open>zebra\<close> and
  \<open>apple\<close>, declared in any order, is written as the lines before, a blank line, the
  marker \<open># ----- Dimensions -----\<close>, \<open>apple\<close>, \<open>zebra\<close>, the marker
  \<open># ----- End of Dimensions -----\<close>, the marker \<open># ----- Measures -----\<close>,
  \<open>total_sales\<close>, the marker \<open># ----- End of Measures -----\<close>. The sections for
  filters and parameters come first and are empty here, as is the section of the other
  blocks at the end. The name comparison of the host is asked only to put \<open>apple\<close>
  before \<open>zebra\<close>.
\<close>

lemma grouping_order:
  assumes cfg: "groupFieldsByType cfg" "sortFields cfg"
    and cmp: "localeCompare cfg ''apple'' ''zebra'' < 0" "\<not> localeCompare cfg ''zebra'' ''apple'' < 0"
    and m: "block_type fm = ''measure''" "block_name fm = ''total_sales''" "indent fm = i"
    and z: "block_type fz = ''dimension''" "block_name fz = ''zebra''" "indent fz = i"
    and a: "block_type fa = ''dimension''" "block_name fa = ''apple''" "indent fa = i"
    and fs: "fs \<in> set [[fm, fz, fa], [fm, fa, fz], [fz, fm, fa], [fz, fa, fm], [fa, fm, fz], [fa, fz, fm]]"
    and clean: "noMarkers out" "noMarkers (addField cfg i [] fa)" "noMarkers (addField cfg i [] fz)"
      "noMarkers (addField cfg i [] fm)"
  shows "organizeViewFields cfg fs out =
           out @ [[]]
           @ [ind cfg i @ ''# ----- Dimensions -----'']
           @ addField cfg i [] fa @ addField cfg i [] fz
           @ [ind cfg i @ ''# ----- End of Dimensions -----'']
           @ [ind cfg i @ ''# ----- Measures -----'']
           @ addField cfg i [] fm
           @ [ind cfg i @ ''# ----- End of Measures -----'']"
proof -
  have types: "ofType ''filter'' fs = []" "ofType ''parameter'' fs = []" "ofType ''dimension_group'' fs = []"
    "ofType ''measure'' fs = [fm]" "filter (\<lambda>field. \<not> isFieldType (block_type field)) fs = []"
    using fs m z a by (auto simp: ofType_def isFieldType_def)
  have dims: "ofType ''dimension'' fs = [fz, fa] \<or> ofType ''dimension'' fs = [fa, fz]"
    using fs m z a by (auto simp: ofType_def)
  have sorted: "sortIfNeeded cfg (ofType ''dimension'' fs) = [fa, fz]"
    using dims cfg cmp z a by (auto simp: sortIfNeeded_def sortByName_def)
  have fi: "(case fs of [] \<Rightarrow> 1 | f # fs' \<Rightarrow> indent f) = i"
    using fs m z a by auto
  have nm: "\<not> linePresent out mk" "\<not> linePresent (addField cfg i [] fa) mk"
    "\<not> linePresent (addField cfg i [] fz) mk" "\<not> linePresent (addField cfg i [] fm) mk"
    if "mk \<in> set sectionMarkers" for mk
    using clean that by (auto simp: noMarkers_def list_all_iff)
  have mk: "''# ----- Dimensions -----'' \<in> set sectionMarkers"
    "''# ----- End of Dimensions -----'' \<in> set sectionMarkers"
    "''# ----- Measures -----'' \<in> set sectionMarkers"
    "''# ----- End of Measures -----'' \<in> set sectionMarkers"
    by (simp_all add: sectionMarkers_def)
  have dsec: "addFieldSection cfg (out @ [[]]) [fa, fz] ''Dimensions'' i
        = out @ [[]] @ [ind cfg i @ ''# ----- Dimensions -----''] @ addField cfg i [] fa
          @ addField cfg i [] fz @ [ind cfg i @ ''# ----- End of Dimensions -----'']"
    using cfg nm[OF mk(1)] nm[OF mk(2)]
    by (simp add: addFieldSection_def Let_def linePresent_append linePresent_Cons linePresent_Nil
          trim_ind trim_markers trim_blank addField_out[of cfg i "_ @ _"])
  have msec: "addFieldSection cfg
          (out @ [[]] @ [ind cfg i @ ''# ----- Dimensions -----''] @ addField cfg i [] fa
             @ addField cfg i [] fz @ [ind cfg i @ ''# ----- End of Dimensions -----''])
          [fm] ''Measures'' i
        = out @ [[]] @ [ind cfg i @ ''# ----- Dimensions -----''] @ addField cfg i [] fa
          @ addField cfg i [] fz @ [ind cfg i @ ''# ----- End of Dimensions -----'']
          @ [ind cfg i @ ''# ----- Measures -----''] @ addField cfg i [] fm
          @ [ind cfg i @ ''# ----- End of Measures -----'']"
    using cfg nm[OF mk(3)] nm[OF mk(4)]
    by (simp add: addFieldSection_def Let_def linePresent_append linePresent_Cons linePresent_Nil
          trim_ind trim_markers trim_blank addField_out[of cfg i "_ @ _"])
  have small: "sortIfNeeded cfg [] = []" "sortIfNeeded cfg [fm] = [fm]"
    by (simp_all add: sortIfNeeded_def sortByName_def)
  show ?thesis
    using dsec msec
    by (simp add: organizeViewFields_def Let_def types sorted fi addSection_def small)
qed


text \<open>The view of the example, from the text of the document to the text returned: the
  blocks the parser builds, the hypotheses of the theorem at these blocks, and the whole
  formatted document.\<close>

lemma example_parse:
  "parseViews exampleConfig (jsSplit lineBreakPattern docB)
     = ([\<lparr>fv_name = ''v'', fv_startLine = 0, fv_endLine = 7, header = [''view: v {''],
          footer = [''}''], fv_fields = [0, 1, 2], nonFieldBlocks = []\<rparr>],
        [exampleMeasure, exampleZebra, exampleApple])"
  by code_simp

lemma example_format: "formatDocument exampleConfig docB = joinWith [nl] (groupedExample @ [''}''])"
  by code_simp

lemma example_hyps:
  "groupFieldsByType exampleConfig" "sortFields exampleConfig"
  "localeCompare exampleConfig ''apple'' ''zebra'' < 0"
  "\<not> localeCompare exampleConfig ''zebra'' ''apple'' < 0"
  "block_type exampleMeasure = ''measure''" "block_name exampleMeasure = ''total_sales''" "indent exampleMeasure = 1"
  "block_type exampleZebra = ''dimension''" "block_name exampleZebra = ''zebra''" "indent exampleZebra = 1"
  "block_type exampleApple = ''dimension''" "block_name exampleApple = ''apple''" "indent exampleApple = 1"
  "noMarkers [''view: v {'']" "noMarkers (addField exampleConfig 1 [] exampleApple)"
  "noMarkers (addField exampleConfig 1 [] exampleZebra)" "noMarkers (addField exampleConfig 1 [] exampleMeasure)"
  by code_simp+

lemma example_rhs:
  "[''view: v {''] @ [[]]
     @ [ind exampleConfig 1 @ ''# ----- Dimensions -----'']
     @ addField exampleConfig 1 [] exampleApple @ addField exampleConfig 1 [] exampleZebra
     @ [ind exampleConfig 1 @ ''# ----- End of Dimensions -----'']
     @ [ind exampleConfig 1 @ ''# ----- Measures -----'']
     @ addField exampleConfig 1 [] exampleMeasure
     @ [ind exampleConfig 1 @ ''# ----- End of Measures -----'']
   = groupedExample"
  by code_simp


text \<open>The view of the example as the first view of a document: the declared order
  measure \<open>total_sales\<close>, dimension \<open>zebra\<close>, dimension \<open>apple\<close>.\<close>

lemma grouping_order_example:
  "organizeViewFields exampleConfig [exampleMeasure, exampleZebra, exampleApple] [''view: v {'']
     = groupedExample"
  using grouping_order[of exampleConfig exampleMeasure 1 exampleZebra exampleApple
          "[exampleMeasure, exampleZebra, exampleApple]" "[''view: v {'']"]
  by (simp only: example_hyps example_rhs list.set insertI1 simp_thms)

text \<open>
  Claim C4 fails for the view of the example when it is not the first view of the
  document. All views are written to one list of lines, and a section writes its marker
  only if no line of that list is the marker already. After a view with a dimension and
  a measure, the view with the measure \<open>total_sales\<close> and the dimensions \<open>zebra\<close> and
  \<open>apple\<close> comes out grouped and sorted, \<open>apple\<close>, \<open>zebra\<close>, \<open>total_sales\<close>, and
  without any marker.
\<close>

theorem later_view_without_markers:
  "formatDocument exampleConfig docTwo = docTwo1
   \<and> formatDocument exampleConfig docB = joinWith [nl] (groupedExample @ [''}''])"
  by code_simp


section \<open>The formatter: a second pass\<close>

lemma first_pass: "formatDocument exampleConfig docA = docA1"
  by code_simp

lemma second_pass: "formatDocument exampleConfig docA1 = docA2"
  by code_simp

lemma passes_differ: "docA1 \<noteq> docA2"
  by code_simp


text \<open>
  Claim C1 fails on the document of the repository's own test of repeated formatting, with
  grouping and sorting on. The first pass writes the markers of the dimensions and of
  the measures. The second pass reads the two marker lines that stand between the last
  dimension and the first measure as comments of that measure. The section of the
  measures then writes its opening marker, which the lines written so far in this pass
  do not hold, and after it the comments of the measure: \<open># ----- End of Dimensions -----\<close>
  and \<open># ----- Measures -----\<close> stand twice in the second text.
\<close>

theorem second_pass_duplicates_markers:
  "formatDocument exampleConfig docA = docA1
   \<and> formatDocument exampleConfig (formatDocument exampleConfig docA) = docA2
   \<and> docA1 \<noteq> docA2"
  by (simp add: first_pass second_pass passes_differ)


section \<open>The formatter: templating tags in SQL\<close>

text \<open>
  Claim C2 fails where a templating tag or a substitution token holds a keyword or an
  operator. In the SQL of a field, a line with a \<open>${...}\<close> token has its keywords
  \<open>AND\<close>, \<open>OR\<close>, \<open>FROM\<close>, ... put in upper case over the whole line, inside
  \<open>{% ... %}\<close> and inside \<open>${...}\<close> too. In the SQL of a derived table every line goes
  through the keyword and operator rewriting, tags included: \<open>and\<close> becomes \<open>AND\<close> and
  \<open>x==1\<close> becomes \<open>x == 1\<close> inside the tag.
\<close>

theorem template_tags_rewritten:
  "formatDocument exampleConfig docD = docD1
   \<and> formatSqlContent ''{% if a and b %} ${TABLE}.x'' = ''{% if a AND b %} ${TABLE}.x''
   \<and> formatSqlKeywords ''{% if x==1 and y %}'' = ''{% if x == 1 AND y %}''
   \<and> formatSqlContent ''${orders.from} > 1'' = ''${orders.FROM} > 1''"
  by code_simp

section \<open>The matcher keeps the text\<close>

text \<open>A match moves characters from the remaining input to the current match and loses
  none: the text skipped, the match and the rest make up the input.\<close>

lemma sameText_refl: "sameText st st"
  by (simp add: sameText_def)

lemma sameText_trans: "sameText a b \<Longrightarrow> sameText b c \<Longrightarrow> sameText a c"
  by (simp add: sameText_def)

lemma sameText_startIter: "sameText (startIter st) st' = sameText st st'"
  by (cases st) (simp add: sameText_def)

lemma step_text: "step P st k = Some res \<Longrightarrow> \<exists>st'. k st' = Some res \<and> sameText st st'"
  by (cases st; cases "rest st") (auto simp: sameText_def split: if_splits)

lemma strm_text: "strm ci as st k = Some res \<Longrightarrow> \<exists>st'. k st' = Some res \<and> sameText st st'"
proof (induction as arbitrary: st)
  case Nil
  then show ?case by (auto simp: sameText_refl)
next
  case (Cons a as)
  from Cons.prems obtain st1 where "strm ci as st1 k = Some res" "sameText st st1"
    by (auto dest!: step_text)
  with Cons.IH[of st1] show ?case by (blast intro: sameText_trans)
qed

lemma starGreedy_text:
  assumes f: "\<And>st k res. f st k = Some res \<Longrightarrow> \<exists>st'. k st' = Some res \<and> sameText st st'"
  shows "starGreedy f fuel st k = Some res \<Longrightarrow> \<exists>st'. k st' = Some res \<and> sameText st st'"
proof (induction fuel arbitrary: st)
  case Nil
  then show ?case by (auto simp: sameText_refl)
next
  case (Cons x fuel)
  show ?case
  proof (cases "f (startIter st) (\<lambda>st1. if moved st1 then starGreedy f fuel st1 k else None)")
    case None
    with Cons.prems show ?thesis by (auto simp: sameText_refl)
  next
    case (Some r)
    with Cons.prems have "r = res" by simp
    with Some f[of "startIter st"] obtain st1 where
      st1: "(if moved st1 then starGreedy f fuel st1 k else None) = Some res" "sameText st st1"
      by (auto simp: sameText_startIter)
    then have "starGreedy f fuel st1 k = Some res" by (auto split: if_splits)
    from Cons.IH[OF this] st1 show ?thesis by (blast intro: sameText_trans)
  qed
qed

lemma starLazy_text:
  assumes f: "\<And>st k res. f st k = Some res \<Longrightarrow> \<exists>st'. k st' = Some res \<and> sameText st st'"
  shows "starLazy f fuel st k = Some res \<Longrightarrow> \<exists>st'. k st' = Some res \<and> sameText st st'"
proof (induction fuel arbitrary: st)
  case Nil
  then show ?case by (auto simp: sameText_refl)
next
  case (Cons x fuel)
  show ?case
  proof (cases "k st")
    case (Some r)
    with Cons.prems show ?thesis by (auto simp: sameText_refl)
  next
    case None
    with Cons.prems f[of "startIter st"] obtain st1 where
      st1: "(if moved st1 then starLazy f fuel st1 k else None) = Some res" "sameText st st1"
      by (auto simp: sameText_startIter)
    then have "starLazy f fuel st1 k = Some res" by (auto split: if_splits)
    from Cons.IH[OF this] st1 show ?thesis by (blast intro: sameText_trans)
  qed
qed

lemma sameText_grp: "sameText (openGrp st) st1 \<Longrightarrow> sameText st (closeGrp st st1)"
  by (cases st; cases st1) (simp add: sameText_def)

lemma m_text: "m ci r st k = Some res \<Longrightarrow> \<exists>st'. k st' = Some res \<and> sameText st st'"
proof (induction r arbitrary: st k res)
  case (Seq a b)
  from Seq.prems Seq.IH(1)[of st "\<lambda>st1. m ci b st1 k"] obtain st1 where
    "m ci b st1 k = Some res" "sameText st st1" by auto
  with Seq.IH(2)[of st1 k res] show ?case by (blast intro: sameText_trans)
next
  case (Alt a b)
  then show ?case by (cases "m ci a st k") auto
next
  case (Opt a)
  then show ?case by (cases "m ci a st k") (auto simp: sameText_refl)
next
  case (Star a)
  show ?case
    by (rule starGreedy_text[where f = "m ci a" and fuel = "rest st"])
       (use Star in auto)
next
  case (Lazy a)
  show ?case
    by (rule starLazy_text[where f = "m ci a" and fuel = "rest st"])
       (use Lazy in auto)
next
  case (Plus a)
  from Plus.prems Plus.IH[of st "\<lambda>st1. starGreedy (m ci a) (rest st1) st1 k"] obtain st1 where
    st1: "starGreedy (m ci a) (rest st1) st1 k = Some res" "sameText st st1" by auto
  have "\<exists>st'. k st' = Some res \<and> sameText st1 st'"
    by (rule starGreedy_text[where f = "m ci a" and fuel = "rest st1"])
       (use Plus.IH st1 in auto)
  with st1 show ?case by (blast intro: sameText_trans)
next
  case (Grp a)
  from Grp.prems Grp.IH[of "openGrp st" "\<lambda>st1. k (closeGrp st st1)"] obtain st1 where
    "k (closeGrp st st1) = Some res" "sameText (openGrp st) st1" by auto
  then show ?case by (blast intro: sameText_grp)
next
  case (Look a)
  then show ?case by (auto simp: sameText_refl split: option.splits)
qed (auto dest!: step_text strm_text simp: sameText_refl split: if_splits)

lemma exec_text: "exec ci r p s = Some st \<Longrightarrow> rev (cur st) @ rest st = s"
  unfolding exec_def by (drule m_text) (auto simp: sameText_def)

lemma search_text:
  "search ci r p sk s = Some (pre, st) \<Longrightarrow> pre @ rev (cur st) @ rest st = rev sk @ s"
  by (induction s arbitrary: p sk) (auto split: option.splits dest: exec_text)

lemma search_skipped:
  "search ci r p sk s = map_option (\<lambda>(pre, st). (rev sk @ pre, st)) (search ci r p [] s)"
proof (induction s arbitrary: p sk)
  case Nil
  then show ?case by (simp split: option.splits)
next
  case (Cons c s)
  show ?case
    using Cons.IH[of "Some c" "c # sk"] Cons.IH[of "Some c" "[c]"]
    by (cases "exec ci r p (c # s)") (auto simp: option.map_comp comp_def case_prod_beta)
qed

lemma exec_consumes:
  assumes "exec ci r p s = Some st" "0 < minLen r"
  shows "cur st \<noteq> [] \<and> length (rest st) < length s"
proof -
  from assms exec_sound[OF assms(1)] have c: "cur st \<noteq> []" by auto
  from exec_text[OF assms(1)] have "length s = length (cur st) + length (rest st)"
    by (metis length_append length_rev)
  with c show ?thesis by (cases "cur st") auto
qed

lemma search_consumes:
  assumes "search ci r p sk s = Some (pre, st)" "0 < minLen r"
  shows "cur st \<noteq> [] \<and> length (rest st) < length s"
  using assms
proof (induction s arbitrary: p sk)
  case Nil
  then show ?case by (auto split: option.splits dest: exec_consumes)
next
  case (Cons c s)
  show ?case
  proof (cases "exec ci r p (c # s)")
    case None
    with Cons.prems have "search ci r (Some c) (c # sk) s = Some (pre, st)" by simp
    from Cons.IH[OF this Cons.prems(2)] show ?thesis by simp
  next
    case (Some st1)
    with Cons.prems have "st1 = st" by simp
    with Some exec_consumes[of ci r p "c # s" st] Cons.prems(2) show ?thesis by simp
  qed
qed


text \<open>For a pattern that matches no empty text, spare rounds change nothing, and the
  replacement of every match can be read one position at a time.\<close>

lemma replaceLoop_fuel:
  assumes r: "0 < minLen r"
  shows "length s \<le> length fuel \<Longrightarrow> replaceLoop (x # fuel) ci r f p s = replaceLoop fuel ci r f p s"
proof (induction fuel arbitrary: p s x)
  case Nil
  then have s: "s = []" by simp
  have "exec ci r p [] = None"
    using exec_consumes[of ci r p "[]", OF _ r] by (cases "exec ci r p []") auto
  with s show ?case by simp
next
  case (Cons y fuel)
  show ?case
  proof (cases "search ci r p [] s")
    case None
    then show ?thesis by simp
  next
    case (Some a)
    obtain pre st where a: "a = (pre, st)" by (cases a)
    from search_consumes[OF Some[unfolded a] r] Cons.prems
    have c: "cur st \<noteq> []" and l: "length (rest st) \<le> length fuel" by auto
    from Cons.IH[OF l, of y "prev st"] Some a c show ?thesis by simp
  qed
qed

lemma replaceLoop_step:
  assumes r: "0 < minLen r" and l: "length s \<le> length fuel"
  shows "replaceLoop fuel ci r f p s =
    (case exec ci r p s of
       Some st \<Rightarrow> f (groups st) @ replaceLoop fuel ci r f (prev st) (rest st)
     | None \<Rightarrow> (case s of [] \<Rightarrow> [] | c # cs \<Rightarrow> c # replaceLoop fuel ci r f (Some c) cs))"
proof (cases fuel)
  case Nil
  with l have s: "s = []" by simp
  have "exec ci r p [] = None"
    using exec_consumes[of ci r p "[]", OF _ r] by (cases "exec ci r p []") auto
  with s Nil show ?thesis by simp
next
  case (Cons x fuel')
  show ?thesis
  proof (cases "exec ci r p s")
    case (Some st)
    from exec_consumes[OF Some r] l Cons
    have c: "cur st \<noteq> []" and l': "length (rest st) \<le> length fuel'" by auto
    have "search ci r p [] s = Some ([], st)" using Some by (cases s) simp_all
    with c Some Cons replaceLoop_fuel[OF r l', of x ci f "prev st"] show ?thesis by simp
  next
    case None
    show ?thesis
    proof (cases s)
      case Nil
      with None Cons show ?thesis by simp
    next
      case (Cons c cs)
      have "search ci r p [] (c # cs) = map_option (\<lambda>(pre, st). (c # pre, st)) (search ci r (Some c) [] cs)"
        using None Cons search_skipped[of ci r "Some c" "[c]" cs] by simp
      with None Cons \<open>fuel = x # fuel'\<close> show ?thesis
        by (cases "search ci r (Some c) [] cs") (auto split: list.splits)
    qed
  qed
qed


section \<open>The SQL normalizer\<close>

text \<open>The three replacements of \<open>spaceOperators\<close> are the three scans.\<close>

lemma minLen_patterns:
  "0 < minLen spaceAfterPattern" "0 < minLen spaceBeforePattern" "0 < minLen extraSpacesPattern"
  by (simp_all add: spaceAfterPattern_def spaceBeforePattern_def extraSpacesPattern_def)

lemma exec_spaceAfter:
  "exec False spaceAfterPattern p [] = None"
  "exec False spaceAfterPattern p [a] = None"
  "exec False spaceAfterPattern p (a # b # s) =
     (if isOperatorChar a \<and> \<not> (isComparisonChar b \<or> isSpaceChar b)
      then Some (MState [[a], [b]] [b, a] (Some b) s True) else None)"
  by (auto simp: exec_def spaceAfterPattern_def operatorChars_def inClass_def
        isOperatorChar_def isComparisonChar_def)

lemma exec_spaceBefore:
  "exec False spaceBeforePattern p [] = None"
  "exec False spaceBeforePattern p [a] = None"
  "exec False spaceBeforePattern p (a # b # s) =
     (if \<not> (isSpaceChar a \<or> isOperatorChar a) \<and> isOperatorChar b
      then Some (MState [[a], [b]] [b, a] (Some b) s True) else None)"
  by (auto simp: exec_def spaceBeforePattern_def operatorChars_def inClass_def
        isOperatorChar_def)

lemma spaced_groups:
  "spaced (groups (MState [[a], [b]] [b, a] q s mv)) = [a, CHR '' '', b]"
  by (simp add: spaced_def groups_def)

lemma replaceLoop_spaceAfter_short:
  "replaceLoop fuel False spaceAfterPattern spaced p [] = []"
  "replaceLoop fuel False spaceAfterPattern spaced p [v] = [v]"
  by (cases fuel; simp add: exec_spaceAfter)+

lemma replaceLoop_spaceAfter:
  "length s \<le> length fuel \<Longrightarrow> replaceLoop fuel False spaceAfterPattern spaced p s = spaceAfter s"
proof (induction s arbitrary: p rule: spaceAfter.induct)
  case (1 a b s)
  from "1.prems" have l: "length s \<le> length fuel" "length (b # s) \<le> length fuel" by simp_all
  show ?case
    using "1.IH"(1)[OF _ l(1)] "1.IH"(2)[OF _ l(2)]
    by (subst replaceLoop_step[OF minLen_patterns(1) "1.prems"])
       (simp add: exec_spaceAfter spaced_groups del: replaceLoop.simps)
qed (simp_all add: replaceLoop_spaceAfter_short)

lemma jsReplaceAll_spaceAfter: "jsReplaceAll False spaceAfterPattern spaced s = spaceAfter s"
  by (simp add: jsReplaceAll_def replaceLoop_spaceAfter)

lemma replaceLoop_spaceBefore_short:
  "replaceLoop fuel False spaceBeforePattern spaced p [] = []"
  "replaceLoop fuel False spaceBeforePattern spaced p [v] = [v]"
  by (cases fuel; simp add: exec_spaceBefore)+

lemma replaceLoop_spaceBefore:
  "length s \<le> length fuel \<Longrightarrow> replaceLoop fuel False spaceBeforePattern spaced p s = spaceBefore s"
proof (induction s arbitrary: p rule: spaceBefore.induct)
  case (1 a b s)
  from "1.prems" have l: "length s \<le> length fuel" "length (b # s) \<le> length fuel" by simp_all
  show ?case
    using "1.IH"(1)[OF _ l(1)] "1.IH"(2)[OF _ l(2)]
    by (subst replaceLoop_step[OF minLen_patterns(2) "1.prems"])
       (simp add: exec_spaceBefore spaced_groups del: replaceLoop.simps)
qed (simp_all add: replaceLoop_spaceBefore_short)

lemma jsReplaceAll_spaceBefore: "jsReplaceAll False spaceBeforePattern spaced s = spaceBefore s"
  by (simp add: jsReplaceAll_def replaceLoop_spaceBefore)

lemma m_spaces: "m False (Set [Ws]) = step (inClass [Ws])"
  by (rule ext)+ simp

lemma starGreedy_spaces:
  "length s \<le> length fuel \<Longrightarrow>
     \<exists>st'. starGreedy (m False (Set [Ws])) fuel (MState cs cu p s mv) Some = Some st'
           \<and> rest st' = dropWhile isSpaceChar s"
proof (induction fuel arbitrary: cs cu p s mv)
  case Nil
  then show ?case by simp
next
  case (Cons x fuel)
  show ?case
  proof (cases s)
    case Nil
    then show ?thesis by simp
  next
    case (Cons c s')
    show ?thesis
    proof (cases "isSpaceChar c")
      case False
      with Cons show ?thesis by (simp add: inClass_def)
    next
      case True
      from Cons Cons.prems have "length s' \<le> length fuel" by simp
      from Cons.IH[OF this, of cs "c # cu" "Some c" True] obtain st' where
        "starGreedy (m False (Set [Ws])) fuel (MState cs (c # cu) (Some c) s' True) Some = Some st'"
        "rest st' = dropWhile isSpaceChar s'" by blast
      with Cons True show ?thesis by (simp add: inClass_def m_spaces)
    qed
  qed
qed

lemma exec_extraSpaces:
  "exec False extraSpacesPattern p [] = None"
  "exec False extraSpacesPattern p [a] = None"
  "\<not> (isSpaceChar a \<and> isSpaceChar b) \<Longrightarrow> exec False extraSpacesPattern p (a # b # s) = None"
  by (auto simp: exec_def extraSpacesPattern_def inClass_def)

lemma exec_extraSpaces_run:
  assumes "isSpaceChar a" "isSpaceChar b"
  shows "\<exists>st. exec False extraSpacesPattern p (a # b # s) = Some st
              \<and> rest st = dropWhile isSpaceChar s"
  using assms starGreedy_spaces[of s s "[]" "[b, a]" "Some b" True]
  by (simp add: exec_def extraSpacesPattern_def inClass_def)

lemma replaceLoop_extraSpaces:
  "length s \<le> length fuel \<Longrightarrow>
     replaceLoop fuel False extraSpacesPattern (\<lambda>g. '' '') p s = collapseSpaces s"
proof (induction s arbitrary: p rule: collapseSpaces.induct)
  case (1 a b s)
  show ?case
  proof (cases "isSpaceChar a \<and> isSpaceChar b")
    case True
    then obtain st where st: "exec False extraSpacesPattern p (a # b # s) = Some st"
      "rest st = dropWhile isSpaceChar s"
      using exec_extraSpaces_run[of a b p s] by blast
    have "length (dropWhile isSpaceChar s) \<le> length fuel"
      using "1.prems" le_trans[OF length_dropWhile_le[of isSpaceChar s]] by simp
    from "1.IH"(1)[OF True this, of "prev st"] st True show ?thesis
      by (subst replaceLoop_step[OF minLen_patterns(3) "1.prems"])
         (simp del: replaceLoop.simps)
  next
    case False
    from "1.prems" have "length (b # s) \<le> length fuel" by simp
    from "1.IH"(2)[OF False this, of "Some a"] False exec_extraSpaces(3)[OF False, of p s]
    show ?thesis
      by (subst replaceLoop_step[OF minLen_patterns(3) "1.prems"])
         (auto simp del: replaceLoop.simps)
  qed
next
  case (2 a)
  show ?case
    by (subst replaceLoop_step[OF minLen_patterns(3) "2.prems"])
       (simp add: exec_extraSpaces,
        subst replaceLoop_step[OF minLen_patterns(3)], simp, simp add: exec_extraSpaces)
next
  case 3
  show ?case
    by (subst replaceLoop_step[OF minLen_patterns(3) "3.prems"]) (simp add: exec_extraSpaces)
qed

lemma jsReplaceAll_extraSpaces:
  "jsReplaceAll False extraSpacesPattern (\<lambda>g. '' '') s = collapseSpaces s"
  by (simp add: jsReplaceAll_def replaceLoop_extraSpaces)

lemma spaceOperators_eq: "spaceOperators line = collapseSpaces (spaceBefore (spaceAfter line))"
  by (simp add: spaceOperators_def jsReplaceAll_extraSpaces jsReplaceAll_spaceBefore
        jsReplaceAll_spaceAfter)






lemma space_chars:
  "isSpaceChar CHR '' ''" "\<not> isOperatorChar CHR '' ''" "\<not> isComparisonChar CHR '' ''"
  by (simp_all add: isSpaceChar_def isOperatorChar_def isComparisonChar_def)

lemma space_not_operator: "isSpaceChar c \<Longrightarrow> \<not> isOperatorChar c"
  by (auto simp: isSpaceChar_def isOperatorChar_def)


















text \<open>A keyword is put in upper case at its first occurrence only: the patterns carry no
  \<open>g\<close> flag.\<close>

lemma keyword_first_occurrence:
  "formatSqlKeywords ''a and b and c'' = ''a AND b and c''"
  by code_simp


text \<open>Operators of two characters stay together, runs of spaces around an operator become
  one space, and nothing is put after \<open>!\<close> that was taken as the character after \<open>=\<close>.\<close>

lemma operator_examples:
  "formatSqlKeywords ''a>=1'' = ''a >= 1''"
  "formatSqlKeywords ''a<>b'' = ''a <> b''"
  "formatSqlKeywords ''a!=b'' = ''a != b''"
  "formatSqlKeywords ''a  =  b'' = ''a = b''"
  "formatSqlKeywords ''a=!b'' = ''a = !b''"
  by code_simp+


text \<open>The normalizer changes the case of letters and the white space of a line, and
  nothing else: a keyword pattern matches the keyword up to case and white space, and
  the operator scans only add and remove white space. The same holds for the rewriting
  of a line with a substitution token.\<close>

lemma skeleton_append: "skeleton (a @ b) = skeleton a @ skeleton b"
  by (simp add: skeleton_def)

lemma skeleton_Cons: "skeleton (c # s) = skeleton [c] @ skeleton s"
  by (simp add: skeleton_def)

lemma skeleton_Nil: "skeleton [] = []"
  by (simp add: skeleton_def)

lemma upperChar_space: "isSpaceChar c \<Longrightarrow> upperChar c = c"
  by (auto simp: isSpaceChar_def upperChar_def isLowerChar_def)

lemma skeleton_space: "isSpaceChar c \<Longrightarrow> skeleton (c # s) = skeleton s"
  by (simp add: skeleton_def upperChar_space)

lemma skeleton_spaces: "list_all isSpaceChar xs \<Longrightarrow> skeleton (xs @ s) = skeleton s"
  by (induction xs) (simp_all add: skeleton_space)

lemma skelStep_refl: "skelStep [] st st"
  by (simp add: skelStep_def)

lemma skelStep_trans: "skelStep x a b \<Longrightarrow> skelStep y b c \<Longrightarrow> skelStep (x @ y) a c"
  by (simp add: skelStep_def)

lemma skelStep_startIter: "skelStep x (startIter st) st' = skelStep x st st'"
  by (cases st) (simp add: skelStep_def)

lemma step_space_skel:
  "step (inClass [Ws]) st k = Some res \<Longrightarrow> \<exists>st'. k st' = Some res \<and> skelStep [] st st'"
  by (cases st; cases "rest st")
     (auto simp: skelStep_def inClass_def skeleton_append skeleton_space skeleton_Nil split: if_splits)

lemma strm_skel:
  "strm True as st k = Some res \<Longrightarrow> \<exists>st'. k st' = Some res \<and> skelStep (skeleton as) st st'"
proof (induction as arbitrary: st)
  case Nil
  then show ?case by (auto simp: skelStep_def skeleton_Nil)
next
  case (Cons a as)
  obtain cs cu p s mv where st: "st = MState cs cu p s mv" by (cases st)
  from Cons.prems st obtain c s' where s: "s = c # s'" and ok: "upperChar a = upperChar c"
    and r: "strm True as (MState cs (c # cu) (Some c) s' True) k = Some res"
    by (cases s) (auto simp: litOk_def split: if_splits)
  from Cons.IH[OF r] obtain st' where
    k: "k st' = Some res" and sk: "skelStep (skeleton as) (MState cs (c # cu) (Some c) s' True) st'"
    by blast
  have "skeleton [c] = skeleton [a]" using ok by (simp add: skeleton_def)
  with sk st have "skelStep (skeleton (a # as)) st st'"
    using skeleton_append[of "[a]" as] skeleton_append[of "rev cu" "[c]"]
    by (simp add: skelStep_def)
  with k show ?case by blast
qed

lemma starGreedy_space_skel:
  "starGreedy (step (inClass [Ws])) fuel st k = Some res
     \<Longrightarrow> \<exists>st'. k st' = Some res \<and> skelStep [] st st'"
proof (induction fuel arbitrary: st)
  case Nil
  then show ?case by (auto simp: skelStep_refl)
next
  case (Cons x fuel)
  show ?case
  proof (cases "step (inClass [Ws]) (startIter st)
                  (\<lambda>st1. if moved st1 then starGreedy (step (inClass [Ws])) fuel st1 k else None)")
    case None
    with Cons.prems show ?thesis by (auto simp: skelStep_refl)
  next
    case (Some r)
    with Cons.prems have "r = res" by simp
    with Some step_space_skel[of "startIter st"] obtain st1 where
      st1: "(if moved st1 then starGreedy (step (inClass [Ws])) fuel st1 k else None) = Some res"
        "skelStep [] st st1"
      by (auto simp: skelStep_startIter)
    then have "starGreedy (step (inClass [Ws])) fuel st1 k = Some res" by (auto split: if_splits)
    from Cons.IH[OF this] st1 skelStep_trans[of "[]" st st1 "[]"] show ?thesis by auto
  qed
qed

lemma m_step_spaces: "m ci (Set [Ws]) = step (inClass [Ws])"
  by (rule ext)+ simp

lemma m_skel:
  "skel r = Some x \<Longrightarrow> m True r st k = Some res
     \<Longrightarrow> \<exists>st'. k st' = Some res \<and> skelStep x st st'"
proof (induction r arbitrary: x st k res)
  case (Str as)
  then show ?case by (auto dest: strm_skel)
next
  case (Seq a b)
  from Seq.prems(1) obtain xa xb where x: "skel a = Some xa" "skel b = Some xb" "x = xa @ xb"
    by (auto split: option.splits)
  from Seq.prems(2) Seq.IH(1)[OF x(1), of st "\<lambda>st1. m True b st1 k"] obtain st1 where
    "m True b st1 k = Some res" "skelStep xa st st1" by auto
  with Seq.IH(2)[OF x(2), of st1 k res] x(3) show ?case by (blast intro: skelStep_trans)
next
  case (Plus a)
  from Plus.prems(1) have a: "a = Set [Ws]" and x: "x = []" by (auto split: if_splits)
  from Plus.prems(2) a
  have "step (inClass [Ws]) st (\<lambda>st1. starGreedy (step (inClass [Ws])) (rest st1) st1 k) = Some res"
    by (simp add: m_step_spaces)
  from step_space_skel[OF this] obtain st1 where
    "starGreedy (step (inClass [Ws])) (rest st1) st1 k = Some res" "skelStep [] st st1" by blast
  with starGreedy_space_skel[of "rest st1" st1 k res] x skelStep_trans[of "[]" st st1 "[]"]
  show ?case by auto
next
  case Wb
  then show ?case by (auto simp: skelStep_refl split: if_splits)
qed simp_all

lemma search_skel:
  "skel r = Some x \<Longrightarrow> search True r p sk s = Some (pre, st) \<Longrightarrow> skeleton (rev (cur st)) = x"
proof (induction s arbitrary: p sk)
  case Nil
  then show ?case
    by (auto simp: exec_def skelStep_def skeleton_Nil split: option.splits dest!: m_skel)
next
  case (Cons c s)
  then show ?case
    by (cases "exec True r p (c # s)")
       (auto simp: exec_def skelStep_def skeleton_Nil dest!: m_skel)
qed

lemma skeleton_parts:
  "skeleton (takeWhile (\<lambda>c. c \<noteq> CHR '' '') kw)
     @ skeleton (drop (Suc 0) (dropWhile (\<lambda>c. c \<noteq> CHR '' '') kw))
     = skeleton kw"
  by (induction kw) (simp_all add: skeleton_def upperChar_space space_chars)

lemma skel_keywordPattern: "skel (keywordPattern kw) = Some (skeleton kw)"
  by (simp add: keywordPattern_def keywordParts_def ws1_def skeleton_Nil skeleton_parts)

lemma replaceKeyword_skeleton:
  assumes "skeleton replacement = skeleton kw"
  shows "skeleton (replaceKeyword kw replacement line) = skeleton line"
proof (cases "search True (keywordPattern kw) None [] line")
  case None
  then show ?thesis by (simp add: replaceKeyword_def jsReplace_def)
next
  case (Some a)
  obtain pre st where a: "a = (pre, st)" by (cases a)
  from search_text[OF Some[unfolded a]] have l: "line = pre @ rev (cur st) @ rest st" by simp
  from search_skel[OF skel_keywordPattern Some[unfolded a]]
  have "skeleton (rev (cur st)) = skeleton kw" .
  with assms have "skeleton (pre @ replacement @ rest st) = skeleton (pre @ rev (cur st) @ rest st)"
    by (simp add: skeleton_append)
  with l Some a show ?thesis by (simp add: replaceKeyword_def jsReplace_def)
qed

lemma keywords_skeleton:
  "skeleton (foldl (\<lambda>formattedLine keyword. replaceKeyword keyword keyword formattedLine) line kws)
     = skeleton line"
  by (induction kws arbitrary: line) (simp_all add: replaceKeyword_skeleton)

lemma upperChar_idem: "upperChar (upperChar c) = upperChar c"
proof (cases "isLowerChar c")
  case False
  then show ?thesis by (simp add: upperChar_def)
next
  case True
  then have "CHR ''a'' \<le> c" "c \<le> CHR ''z''" by (simp_all add: isLowerChar_def)
  then have "97 \<le> (of_char c :: nat)" "(of_char c :: nat) \<le> 122"
    by (simp_all add: less_eq_char_def)
  then have "\<not> isLowerChar (char_of (of_char c - (32::nat)))"
    by (simp add: isLowerChar_def less_eq_char_def)
  then show ?thesis by (simp add: upperChar_def)
qed

lemma skeleton_toUpperCase: "skeleton (toUpperCase s) = skeleton s"
  by (simp add: skeleton_def toUpperCase_def upperChar_idem comp_def)

lemma lookmlVars_skeleton:
  "skeleton (foldl (\<lambda>formattedLine keyword. replaceKeyword keyword (toUpperCase keyword) formattedLine)
               line kws)
     = skeleton line"
  by (induction kws arbitrary: line) (simp_all add: replaceKeyword_skeleton skeleton_toUpperCase)

lemma filter_dropWhile: "filter (\<lambda>c. \<not> P c) (dropWhile P s) = filter (\<lambda>c. \<not> P c) s"
  by (induction s) simp_all

lemma skeleton_dropWhile: "skeleton (dropWhile isSpaceChar s) = skeleton s"
proof (induction s)
  case Nil
  then show ?case by simp
next
  case (Cons c s)
  then show ?case by (simp add: skeleton_space)
qed

lemma skeleton_spaceAfter: "skeleton (spaceAfter s) = skeleton s"
  by (induction s rule: spaceAfter.induct) (simp_all add: skeleton_def space_chars upperChar_space)

lemma skeleton_spaceBefore: "skeleton (spaceBefore s) = skeleton s"
  by (induction s rule: spaceBefore.induct) (simp_all add: skeleton_def space_chars upperChar_space)

lemma skeleton_collapseSpaces: "skeleton (collapseSpaces s) = skeleton s"
proof (induction s rule: collapseSpaces.induct)
  case (1 a b s)
  show ?case
  proof (cases "isSpaceChar a \<and> isSpaceChar b")
    case True
    with "1.IH"(1) show ?thesis by (simp add: skeleton_space space_chars skeleton_dropWhile)
  next
    case False
    have "skeleton (a # collapseSpaces (b # s)) = skeleton [a] @ skeleton (collapseSpaces (b # s))"
      by (rule skeleton_Cons)
    also have "\<dots> = skeleton [a] @ skeleton (b # s)" using "1.IH"(2)[OF False] by simp
    also have "\<dots> = skeleton (a # b # s)" by (rule skeleton_Cons[symmetric])
    finally show ?thesis using False by auto
  qed
qed simp_all

lemma skeleton_spaceOperators: "skeleton (spaceOperators s) = skeleton s"
  by (simp add: spaceOperators_eq skeleton_collapseSpaces skeleton_spaceBefore skeleton_spaceAfter)

lemma skeleton_formatSqlKeywords: "skeleton (formatSqlKeywords line) = skeleton line"
  by (simp add: formatSqlKeywords_def skeleton_spaceOperators keywords_skeleton)

lemma skeleton_formatSqlContent: "skeleton (formatSqlContent line) = skeleton line"
  by (simp add: formatSqlContent_def formatSqlWithLookMLVars_def skeleton_formatSqlKeywords
        lookmlVars_skeleton)





end
